theory Spec2Isabelle
  imports Main "HOL-Library.AList"
begin

section \<open>The OCI compute tool server: data model\<close>

text \<open>
  The theory embeds \<^verbatim>\<open>oci-compute-mcp-server.py\<close>. Python strings are modelled as
  \<^typ>\<open>string\<close>. The case conversions \<^verbatim>\<open>str.upper\<close> and \<^verbatim>\<open>str.lower\<close> are modelled
  on the ASCII letters, every other character is left as it is.

  Every tool returns \<^verbatim>\<open>json.dumps(v)\<close> for a value \<^verbatim>\<open>v\<close> built from dictionaries, lists,
  strings and \<^verbatim>\<open>None\<close>; the model returns \<^verbatim>\<open>v\<close> itself as a value of type \<open>json\<close>, a
  dictionary as an association list in insertion order.
\<close>

datatype json =
    JNull
  | JString string
  | JArray "json list"
  | JObject "(string \<times> json) list"

record compartment =
  c_id :: string
  c_name :: string
  c_description :: string
  c_lifecycle_state :: string
  c_time_created :: string

record shape_config =
  ocpus :: json
  memory_in_gbs :: json

record launch_options =
  boot_volume_type :: string
  firmware :: string
  network_type :: string

record Instance =
  i_id :: string
  display_name :: string
  lifecycle_state :: string
  availability_domain :: string
  shape :: string
  i_shape_config :: "shape_config option"
  i_time_created :: string
  compartment_id :: string
  i_region :: string
  fault_domain :: string
  image_id :: string
  launch_mode :: string
  i_launch_options :: "launch_options option"
  metadata :: json
  extended_metadata :: json

text \<open>One page of \<^verbatim>\<open>identity_client.list_compartments\<close>: the data and the continuation token.\<close>

record page =
  data :: "compartment list"
  next_page :: "string option"

subsection \<open>The backend and the trace of calls\<close>

text \<open>
  A compute client is identified by the region it was built for; \<open>None\<close> is the process-wide
  \<^verbatim>\<open>compute_client\<close>. Each SDK call is a function of the backend's state that either raises
  (\<open>Inl\<close> with the text \<^verbatim>\<open>str(e)\<close>) or returns (\<open>Inr\<close>), and leaves a new backend state.
  \<open>client_error r\<close> is the text of the exception that \<^verbatim>\<open>oci.core.ComputeClient\<close> raises for a
  configuration with region \<open>r\<close>, if it raises.
\<close>

datatype call =
    ListCompartments string "string option"
  | GetCompartment string
  | ListInstances "string option" string
  | GetInstance "string option" string
  | InstanceAction "string option" string string

datatype event = Returned call | Raised call string

fun call_of :: "event \<Rightarrow> call" where
  "call_of (Returned c) = c"
| "call_of (Raised c e) = c"

record 'b env =
  tenancy_id :: string
  client_error :: "string \<Rightarrow> string option"
  identity_list_compartments :: "string \<Rightarrow> string option \<Rightarrow> 'b \<Rightarrow> (string + page) \<times> 'b"
  identity_get_compartment :: "string \<Rightarrow> 'b \<Rightarrow> (string + compartment) \<times> 'b"
  compute_list_instances :: "string option \<Rightarrow> string \<Rightarrow> 'b \<Rightarrow> (string + Instance list) \<times> 'b"
  compute_get_instance :: "string option \<Rightarrow> string \<Rightarrow> 'b \<Rightarrow> (string + Instance) \<times> 'b"
  compute_instance_action_api :: "string option \<Rightarrow> string \<Rightarrow> string \<Rightarrow> 'b \<Rightarrow> (string + unit) \<times> 'b"

record 'b world =
  bstate :: 'b
  trace :: "event list"

definition invoke :: "call \<Rightarrow> ('b \<Rightarrow> (string + 'a) \<times> 'b) \<Rightarrow> 'b world \<Rightarrow> (string + 'a) \<times> 'b world" where
  "invoke c f w =
     (case f (bstate w) of
        (Inl e, s) \<Rightarrow> (Inl e, \<lparr>bstate = s, trace = trace w @ [Raised c e]\<rparr>)
      | (Inr v, s) \<Rightarrow> (Inr v, \<lparr>bstate = s, trace = trace w @ [Returned c]\<rparr>))"

text \<open>The lifecycle actions among a list of events, in the order of dispatch.\<close>

fun action_calls :: "event list \<Rightarrow> string list" where
  "action_calls [] = []"
| "action_calls (ev # evs) =
     (case call_of ev of
        InstanceAction r i a \<Rightarrow> a # action_calls evs
      | _ \<Rightarrow> action_calls evs)"

subsection \<open>Strings\<close>

definition upper_char :: "char \<Rightarrow> char" where
  "upper_char c =
     (let n = (of_char c :: nat) in if 97 \<le> n \<and> n \<le> 122 then char_of (n - 32) else c)"

definition lower_char :: "char \<Rightarrow> char" where
  "lower_char c =
     (let n = (of_char c :: nat) in if 65 \<le> n \<and> n \<le> 90 then char_of (n + 32) else c)"

definition str_upper :: "string \<Rightarrow> string" where
  "str_upper s = map upper_char s"

definition str_lower :: "string \<Rightarrow> string" where
  "str_lower s = map lower_char s"

text \<open>\<^verbatim>\<open>s.split(c)\<close>: the segments between the occurrences of \<open>c\<close>; never the empty list.\<close>

fun str_split :: "char \<Rightarrow> string \<Rightarrow> string list" where
  "str_split c [] = [[]]"
| "str_split c (x # xs) =
     (if x = c then [] # str_split c xs
      else (case str_split c xs of [] \<Rightarrow> [[x]] | seg # segs \<Rightarrow> (x # seg) # segs))"

text \<open>\<^verbatim>\<open>sep.join(xs)\<close>\<close>

fun str_join :: "string \<Rightarrow> string list \<Rightarrow> string" where
  "str_join sep [] = []"
| "str_join sep [x] = x"
| "str_join sep (x # y # ys) = x @ sep @ str_join sep (y # ys)"

text \<open>Python's truth value of an optional string: \<^verbatim>\<open>None\<close> and \<^verbatim>\<open>""\<close> are false.\<close>

fun truthy :: "string option \<Rightarrow> bool" where
  "truthy None = False"
| "truthy (Some s) = (s \<noteq> [])"

definition apostrophe :: string where
  "apostrophe = [CHR 0x27]"

definition error_json :: "string \<Rightarrow> json" where
  "error_json msg = JObject [(''error'', JString msg)]"

fun is_error :: "json \<Rightarrow> bool" where
  "is_error (JObject [(k, JString msg)]) = (k = ''error'')"
| "is_error _ = False"

fun json_get :: "string \<Rightarrow> json \<Rightarrow> json option" where
  "json_get k (JObject kvs) = map_of kvs k"
| "json_get k _ = None"

section \<open>compute_instance_action\<close>

definition valid_actions :: "string list" where
  "valid_actions = [''START'', ''STOP'', ''RESET'']"

text \<open>
  Lines 224 to 228: the region is taken from the identifier when the argument is \<^verbatim>\<open>None\<close> or
  empty; \<open>None\<close> is the \<^verbatim>\<open>IndexError\<close> of \<^verbatim>\<open>instance_id.split('.')[3]\<close>.
\<close>

definition resolve_region :: "string \<Rightarrow> string option \<Rightarrow> string option" where
  "resolve_region instance_id region =
     (if \<not> truthy region then
        (let segs = str_split (CHR ''.'') instance_id
         in if 3 < length segs then Some (segs ! 3) else None)
      else region)"

text \<open>
  Lines 255 to 288: the branch on the action and the state. \<open>result\<close> is the dictionary built
  so far; a key is added with \<^verbatim>\<open>result[k] = v\<close>.
\<close>

definition perform_action ::
  "'b env \<Rightarrow> string option \<Rightarrow> string \<Rightarrow> string \<Rightarrow> string \<Rightarrow> (string \<times> json) list \<Rightarrow> 'b world
     \<Rightarrow> (string + (string \<times> json) list) \<times> 'b world" where
  "perform_action env client instance_id action current_state result w =
     (if action = ''START'' then
        (if current_state = ''STOPPED'' then
           (case invoke (InstanceAction client instance_id ''START'')
                   (compute_instance_action_api env client instance_id ''START'') w of
              (Inl e, w1) \<Rightarrow> (Inl e, w1)
            | (Inr u, w1) \<Rightarrow>
                (Inr (AList.update ''message'' (JString ''Instance start initiated'')
                       (AList.update ''status'' (JString ''Action initiated'') result)), w1))
         else
           (Inr (AList.update ''message'' (JString (''Instance is already in state: '' @ current_state))
                  (AList.update ''status'' (JString ''No action needed'') result)), w))
      else if action = ''STOP'' then
        (if current_state = ''RUNNING'' then
           (case invoke (InstanceAction client instance_id ''STOP'')
                   (compute_instance_action_api env client instance_id ''STOP'') w of
              (Inl e, w1) \<Rightarrow> (Inl e, w1)
            | (Inr u, w1) \<Rightarrow>
                (Inr (AList.update ''message'' (JString ''Instance stop initiated'')
                       (AList.update ''status'' (JString ''Action initiated'') result)), w1))
         else
           (Inr (AList.update ''message'' (JString (''Instance is already in state: '' @ current_state))
                  (AList.update ''status'' (JString ''No action needed'') result)), w))
      else if action = ''RESET'' then
        (if current_state \<in> set [''RUNNING'', ''STOPPED''] then
           (case (if current_state = ''RUNNING'' then
                    (case invoke (InstanceAction client instance_id ''STOP'')
                            (compute_instance_action_api env client instance_id ''STOP'') w of
                       (Inl e, w1) \<Rightarrow> (Inl e, w1)
                     | (Inr u, w1) \<Rightarrow>
                         (Inr (AList.update ''message''
                                (JString ''Instance reset initiated (stop then start)'') result), w1))
                  else
                    (Inr (AList.update ''message''
                           (JString ''Instance start initiated (was already stopped)'') result), w)) of
              (Inl e, w1) \<Rightarrow> (Inl e, w1)
            | (Inr result1, w1) \<Rightarrow>
                (case invoke (InstanceAction client instance_id ''START'')
                        (compute_instance_action_api env client instance_id ''START'') w1 of
                   (Inl e, w2) \<Rightarrow> (Inl e, w2)
                 | (Inr u, w2) \<Rightarrow>
                     (Inr (AList.update ''status'' (JString ''Action initiated'') result1), w2)))
         else
           (Inr (AList.update ''message'' (JString (''Cannot reset instance in state: '' @ current_state))
                  (AList.update ''status'' (JString ''Cannot reset'') result)), w))
      else (Inr result, w))"

text \<open>
  Lines 230 to 290, the body of the \<^verbatim>\<open>try\<close> once the region is known: \<open>Inl e\<close> is an
  exception with text \<open>e\<close>, \<open>Inr j\<close> a value handed to \<^verbatim>\<open>json.dumps\<close>.
\<close>

definition compute_instance_action_try ::
  "'b env \<Rightarrow> string \<Rightarrow> string \<Rightarrow> string \<Rightarrow> 'b world \<Rightarrow> (string + json) \<times> 'b world" where
  "compute_instance_action_try env instance_id action0 region w =
     (case client_error env region of
        Some e \<Rightarrow> (Inl e, w)
      | None \<Rightarrow>
          (let client = Some region; action = str_upper action0
           in if action \<notin> set valid_actions then
                (Inr (error_json (''Invalid action '' @ apostrophe @ action @ apostrophe
                        @ ''. Valid actions are: '' @ str_join '', '' valid_actions)), w)
              else
                (case invoke (GetInstance client instance_id)
                        (compute_get_instance env client instance_id) w of
                   (Inl e, w1) \<Rightarrow> (Inl e, w1)
                 | (Inr inst, w1) \<Rightarrow>
                     (let current_state = lifecycle_state inst;
                          result = [(''instance_id'', JString instance_id),
                                    (''instance_name'', JString (display_name inst)),
                                    (''action_requested'', JString action),
                                    (''previous_state'', JString current_state)]
                      in (case perform_action env client instance_id action current_state result w1 of
                            (Inl e, w2) \<Rightarrow> (Inl e, w2)
                          | (Inr result1, w2) \<Rightarrow> (Inr (JObject result1), w2))))))"

definition compute_instance_action ::
  "'b env \<Rightarrow> string \<Rightarrow> string \<Rightarrow> string option \<Rightarrow> 'b world \<Rightarrow> json \<times> 'b world" where
  "compute_instance_action env instance_id action region w =
     (case resolve_region instance_id region of
        None \<Rightarrow> (error_json ''Invalid instance_id format. Cannot extract region.'', w)
      | Some r \<Rightarrow>
          (case compute_instance_action_try env instance_id action r w of
             (Inl e, w1) \<Rightarrow> (error_json (''Failed to perform instance action: '' @ e), w1)
           | (Inr j, w1) \<Rightarrow> (j, w1)))"

section \<open>Compartments\<close>

text \<open>
  Lines 45 to 67 of \<^verbatim>\<open>get_all_compartments\<close>: the loop over the pages. It ends when a page has
  no continuation token, or when the call raises; with a backend that always hands out another
  token it never returns, which is the value \<open>None\<close>.
\<close>

partial_function (option) get_all_compartments_loop ::
  "'b env \<Rightarrow> string option \<Rightarrow> compartment list \<Rightarrow> 'b world
     \<Rightarrow> ((string + compartment list) \<times> 'b world) option" where
  "get_all_compartments_loop env pg all_compartments w =
     (case invoke (ListCompartments (tenancy_id env) (if truthy pg then pg else None))
             (identity_list_compartments env (tenancy_id env) (if truthy pg then pg else None)) w of
        (Inl e, w1) \<Rightarrow> Some (Inl e, w1)
      | (Inr response, w1) \<Rightarrow>
          (let all_compartments1 = all_compartments @ data response
           in if \<not> truthy (next_page response) then Some (Inr all_compartments1, w1)
              else get_all_compartments_loop env (next_page response) all_compartments1 w1))"

definition get_all_compartments ::
  "'b env \<Rightarrow> 'b world \<Rightarrow> ((string + compartment list) \<times> 'b world) option" where
  "get_all_compartments env w =
     (case get_all_compartments_loop env None [] w of
        None \<Rightarrow> None
      | Some (Inl e, w1) \<Rightarrow> Some (Inl e, w1)
      | Some (Inr all_compartments, w1) \<Rightarrow>
          (case invoke (GetCompartment (tenancy_id env))
                  (identity_get_compartment env (tenancy_id env)) w1 of
             (Inl e, w2) \<Rightarrow> Some (Inl e, w2)
           | (Inr root, w2) \<Rightarrow> Some (Inr (all_compartments @ [root]), w2)))"

text \<open>Lines 80 to 84: the search loop of \<^verbatim>\<open>get_compartment_by_name\<close>.\<close>

fun first_compartment_named :: "string \<Rightarrow> compartment list \<Rightarrow> compartment option" where
  "first_compartment_named compartment_name [] = None"
| "first_compartment_named compartment_name (c # cs) =
     (if str_lower (c_name c) = str_lower compartment_name then Some c
      else first_compartment_named compartment_name cs)"

definition get_compartment_by_name ::
  "'b env \<Rightarrow> string \<Rightarrow> 'b world \<Rightarrow> ((string + compartment option) \<times> 'b world) option" where
  "get_compartment_by_name env compartment_name w =
     (case get_all_compartments env w of
        None \<Rightarrow> None
      | Some (Inl e, w1) \<Rightarrow> Some (Inl e, w1)
      | Some (Inr compartments, w1) \<Rightarrow>
          Some (Inr (first_compartment_named compartment_name compartments), w1))"

definition compartment_json :: "compartment \<Rightarrow> json" where
  "compartment_json cpt =
     JObject [(''id'', JString (c_id cpt)),
              (''name'', JString (c_name cpt)),
              (''description'', JString (c_description cpt)),
              (''lifecycle_state'', JString (c_lifecycle_state cpt)),
              (''time_created'', JString (c_time_created cpt))]"

definition list_compartments :: "'b env \<Rightarrow> 'b world \<Rightarrow> (json \<times> 'b world) option" where
  "list_compartments env w =
     (case get_all_compartments env w of
        None \<Rightarrow> None
      | Some (Inl e, w1) \<Rightarrow> Some (error_json (''Failed to list compartments: '' @ e), w1)
      | Some (Inr compartments, w1) \<Rightarrow> Some (JArray (map compartment_json compartments), w1))"

section \<open>Instances\<close>

text \<open>
  The block \<^verbatim>\<open>if region: ... else: ...\<close> of lines 120 to 126, 150 to 156 and 199 to 205: a
  client for the region when one is given, the process-wide client otherwise.
\<close>

definition select_client :: "'b env \<Rightarrow> string option \<Rightarrow> string + string option" where
  "select_client env region =
     (case region of
        None \<Rightarrow> Inr None
      | Some r \<Rightarrow>
          (if r = [] then Inr None
           else (case client_error env r of Some e \<Rightarrow> Inl e | None \<Rightarrow> Inr (Some r))))"

definition compartment_not_found :: "string \<Rightarrow> string" where
  "compartment_not_found compartment_name =
     ''Compartment '' @ apostrophe @ compartment_name @ apostrophe
       @ '' not found. Use list_compartments() to see available compartments.''"

definition instance_summary_json :: "Instance \<Rightarrow> json" where
  "instance_summary_json inst =
     JObject [(''id'', JString (i_id inst)),
              (''display_name'', JString (display_name inst)),
              (''lifecycle_state'', JString (lifecycle_state inst)),
              (''availability_domain'', JString (availability_domain inst)),
              (''shape'', JString (shape inst)),
              (''time_created'', JString (i_time_created inst)),
              (''compartment_id'', JString (compartment_id inst))]"

definition list_compute_instances ::
  "'b env \<Rightarrow> string \<Rightarrow> string option \<Rightarrow> 'b world \<Rightarrow> (json \<times> 'b world) option" where
  "list_compute_instances env compartment_name region w =
     (case get_compartment_by_name env compartment_name w of
        None \<Rightarrow> None
      | Some (Inl e, w1) \<Rightarrow> Some (error_json (''Failed to list compute instances: '' @ e), w1)
      | Some (Inr None, w1) \<Rightarrow> Some (error_json (compartment_not_found compartment_name), w1)
      | Some (Inr (Some cpt), w1) \<Rightarrow>
          (case select_client env region of
             Inl e \<Rightarrow> Some (error_json (''Failed to list compute instances: '' @ e), w1)
           | Inr client \<Rightarrow>
               (case invoke (ListInstances client (c_id cpt))
                       (compute_list_instances env client (c_id cpt)) w1 of
                  (Inl e, w2) \<Rightarrow> Some (error_json (''Failed to list compute instances: '' @ e), w2)
                | (Inr instances, w2) \<Rightarrow> Some (JArray (map instance_summary_json instances), w2))))"

definition instance_json :: "Instance \<Rightarrow> json" where
  "instance_json inst =
     JObject [(''id'', JString (i_id inst)),
              (''display_name'', JString (display_name inst)),
              (''lifecycle_state'', JString (lifecycle_state inst)),
              (''availability_domain'', JString (availability_domain inst)),
              (''shape'', JString (shape inst)),
              (''shape_config'',
                 (case i_shape_config inst of
                    None \<Rightarrow> JNull
                  | Some sc \<Rightarrow> JObject [(''ocpus'', ocpus sc), (''memory_in_gbs'', memory_in_gbs sc)])),
              (''time_created'', JString (i_time_created inst)),
              (''compartment_id'', JString (compartment_id inst)),
              (''region'', JString (i_region inst)),
              (''fault_domain'', JString (fault_domain inst)),
              (''image_id'', JString (image_id inst)),
              (''launch_mode'', JString (launch_mode inst)),
              (''launch_options'',
                 (case i_launch_options inst of
                    None \<Rightarrow> JNull
                  | Some lo \<Rightarrow> JObject [(''boot_volume_type'', JString (boot_volume_type lo)),
                                        (''firmware'', JString (firmware lo)),
                                        (''network_type'', JString (network_type lo))])),
              (''metadata'', metadata inst),
              (''extended_metadata'', extended_metadata inst)]"

definition get_compute_instance ::
  "'b env \<Rightarrow> string \<Rightarrow> string option \<Rightarrow> 'b world \<Rightarrow> json \<times> 'b world" where
  "get_compute_instance env instance_id region w =
     (case select_client env region of
        Inl e \<Rightarrow> (error_json (''Failed to get compute instance: '' @ e), w)
      | Inr client \<Rightarrow>
          (case invoke (GetInstance client instance_id)
                  (compute_get_instance env client instance_id) w of
             (Inl e, w1) \<Rightarrow> (error_json (''Failed to get compute instance: '' @ e), w1)
           | (Inr inst, w1) \<Rightarrow> (instance_json inst, w1)))"

text \<open>Lines 207 to 209: the search loop of \<^verbatim>\<open>get_compute_instance_by_name\<close>.\<close>

fun first_instance_named :: "string \<Rightarrow> Instance list \<Rightarrow> Instance option" where
  "first_instance_named instance_name [] = None"
| "first_instance_named instance_name (i # is) =
     (if str_lower (display_name i) = str_lower instance_name then Some i
      else first_instance_named instance_name is)"

definition instance_not_found :: "string \<Rightarrow> string \<Rightarrow> string" where
  "instance_not_found instance_name compartment_name =
     ''Instance '' @ apostrophe @ instance_name @ apostrophe @ '' not found in compartment ''
       @ apostrophe @ compartment_name @ apostrophe"

definition get_compute_instance_by_name ::
  "'b env \<Rightarrow> string \<Rightarrow> string \<Rightarrow> string option \<Rightarrow> 'b world \<Rightarrow> (json \<times> 'b world) option" where
  "get_compute_instance_by_name env instance_name compartment_name region w =
     (case get_compartment_by_name env compartment_name w of
        None \<Rightarrow> None
      | Some (Inl e, w1) \<Rightarrow>
          Some (error_json (''Failed to get compute instance by name: '' @ e), w1)
      | Some (Inr None, w1) \<Rightarrow> Some (error_json (compartment_not_found compartment_name), w1)
      | Some (Inr (Some cpt), w1) \<Rightarrow>
          (case select_client env region of
             Inl e \<Rightarrow> Some (error_json (''Failed to get compute instance by name: '' @ e), w1)
           | Inr client \<Rightarrow>
               (case invoke (ListInstances client (c_id cpt))
                       (compute_list_instances env client (c_id cpt)) w1 of
                  (Inl e, w2) \<Rightarrow>
                    Some (error_json (''Failed to get compute instance by name: '' @ e), w2)
                | (Inr instances, w2) \<Rightarrow>
                    (case first_instance_named instance_name instances of
                       Some inst \<Rightarrow> Some (get_compute_instance env (i_id inst) region w2)
                     | None \<Rightarrow>
                         Some (error_json (instance_not_found instance_name compartment_name), w2)))))"

text \<open>An event of a call that raised.\<close>

fun raised :: "event \<Rightarrow> bool" where
  "raised (Raised c e) = True"
| "raised (Returned c) = False"

section \<open>Sample backends\<close>

text \<open>
  A backend with one instance, whose state is that instance's lifecycle state, and three
  compartments served on two pages; and the same backend refusing every lifecycle action.
\<close>

definition demo_id :: string where
  "demo_id = ''ocid1.instance.oc1.iad.abc123''"

definition demo_instance :: "string \<Rightarrow> Instance" where
  "demo_instance st =
     \<lparr>i_id = demo_id, display_name = ''Web-01'', lifecycle_state = st,
      availability_domain = ''AD-1'', shape = ''VM.Standard.E4.Flex'', i_shape_config = None,
      i_time_created = ''2025-01-01'', compartment_id = ''ocid1.compartment.oc1..dev'',
      i_region = ''iad'', fault_domain = ''FD-1'', image_id = ''img'', launch_mode = ''NATIVE'',
      i_launch_options = None, metadata = JObject [], extended_metadata = JObject []\<rparr>"

definition demo_compartment :: "string \<Rightarrow> string \<Rightarrow> compartment" where
  "demo_compartment i n =
     \<lparr>c_id = i, c_name = n, c_description = ''sample'', c_lifecycle_state = ''ACTIVE'',
      c_time_created = ''2025-01-01''\<rparr>"

definition demo_env :: "string env" where
  "demo_env =
     \<lparr>tenancy_id = ''ocid1.tenancy.oc1..root'',
      client_error = (\<lambda>r. None),
      identity_list_compartments = (\<lambda>t pg s.
         (if pg = None
          then Inr \<lparr>data = [demo_compartment ''ocid1.compartment.oc1..dev'' ''Dev''],
                    next_page = Some ''p2''\<rparr>
          else Inr \<lparr>data = [demo_compartment ''ocid1.compartment.oc1..prod'' ''Prod''],
                    next_page = None\<rparr>, s)),
      identity_get_compartment = (\<lambda>t s. (Inr (demo_compartment t ''Root''), s)),
      compute_list_instances = (\<lambda>client cid s. (Inr [demo_instance s], s)),
      compute_get_instance = (\<lambda>client i s. (Inr (demo_instance s), s)),
      compute_instance_action_api = (\<lambda>client i a s.
         (Inr (), if a = ''STOP'' then ''STOPPING'' else if a = ''START'' then ''STARTING'' else s))\<rparr>"

definition refusing_env :: "string env" where
  "refusing_env =
     demo_env\<lparr>compute_instance_action_api := (\<lambda>client i a s. (Inl ''Conflict'', s))\<rparr>"

text \<open>A backend where every call raises, and no client can be built for the region "nowhere".\<close>

definition offline_env :: "string env" where
  "offline_env =
     \<lparr>tenancy_id = ''ocid1.tenancy.oc1..root'',
      client_error = (\<lambda>r. if r = ''nowhere'' then Some ''Unknown region'' else None),
      identity_list_compartments = (\<lambda>t pg s. (Inl ''Timeout'', s)),
      identity_get_compartment = (\<lambda>t s. (Inl ''Timeout'', s)),
      compute_list_instances = (\<lambda>client cid s. (Inl ''Timeout'', s)),
      compute_get_instance = (\<lambda>client i s. (Inl ''Timeout'', s)),
      compute_instance_action_api = (\<lambda>client i a s. (Inl ''Timeout'', s))\<rparr>"

definition demo_world :: "string \<Rightarrow> string world" where
  "demo_world st = \<lparr>bstate = st, trace = []\<rparr>"

section \<open>The lifecycle action coordinator\<close>

subsection \<open>Auxiliary facts\<close>

lemma compute_instance_action_observed:
  assumes "resolve_region instance_id region = Some r"
    and "client_error env r = None"
    and "str_upper action \<in> set valid_actions"
    and "compute_get_instance env (Some r) instance_id (bstate w) = (Inr inst, s1)"
  shows "compute_instance_action env instance_id action region w =
     (case perform_action env (Some r) instance_id (str_upper action) (lifecycle_state inst)
             [(''instance_id'', JString instance_id),
              (''instance_name'', JString (display_name inst)),
              (''action_requested'', JString (str_upper action)),
              (''previous_state'', JString (lifecycle_state inst))]
             \<lparr>bstate = s1, trace = trace w @ [Returned (GetInstance (Some r) instance_id)]\<rparr> of
        (Inl e, w2) \<Rightarrow> (error_json (''Failed to perform instance action: '' @ e), w2)
      | (Inr result1, w2) \<Rightarrow> (JObject result1, w2))"
  using assms
  by (simp add: compute_instance_action_def compute_instance_action_try_def invoke_def Let_def
      split: prod.splits sum.splits)

lemma demo_region: "resolve_region demo_id None = Some ''iad''"
  by (simp add: resolve_region_def demo_id_def)

lemma demo_client: "client_error demo_env r = None" "client_error refusing_env r = None"
  by (simp_all add: demo_env_def refusing_env_def)

lemma demo_get_instance:
  "compute_get_instance demo_env client i (bstate (demo_world st)) = (Inr (demo_instance st), st)"
  "compute_get_instance refusing_env client i (bstate (demo_world st)) = (Inr (demo_instance st), st)"
  by (simp_all add: demo_env_def refusing_env_def demo_world_def)

lemma demo_action:
  "compute_instance_action_api demo_env client i ''STOP'' s = (Inr (), ''STOPPING'')"
  "compute_instance_action_api demo_env client i ''START'' s = (Inr (), ''STARTING'')"
  "compute_instance_action_api refusing_env client i a s = (Inl ''Conflict'', s)"
  by (simp_all add: demo_env_def refusing_env_def)

lemma demo_state: "lifecycle_state (demo_instance st) = st" "display_name (demo_instance st) = ''Web-01''"
  by (simp_all add: demo_instance_def)

lemma upper_char_idem: "upper_char (upper_char c) = upper_char c"
  by (auto simp: upper_char_def Let_def)

lemma str_upper_idem: "str_upper (str_upper s) = str_upper s"
  by (simp add: str_upper_def upper_char_idem)

lemma str_split_nonempty: "str_split c s \<noteq> []"
  by (induction s) (auto split: list.splits)

lemma str_join_Cons_Cons: "str_join sep ((a # x) # xs) = a # str_join sep (x # xs)"
  by (cases xs) simp_all

lemma str_join_split: "str_join [c] (str_split c s) = s"
  by (induction s) (auto split: list.splits simp: str_split_nonempty str_join_Cons_Cons)

lemma str_split_segments: "seg \<in> set (str_split c s) \<Longrightarrow> c \<notin> set seg"
  by (induction s arbitrary: seg) (auto split: list.splits if_splits)

lemma valid_actions_listed: "str_join '', '' valid_actions = ''START, STOP, RESET''"
  by (simp add: valid_actions_def)

lemma perform_action_trace:
  assumes "perform_action env client instance_id action current_state result w = (res, w')"
  shows "\<exists>evs. trace w' = trace w @ evs
           \<and> (\<forall>x \<in> set evs. \<exists>a. call_of x = InstanceAction client instance_id a)
           \<and> (\<forall>result1. res = Inr result1
                 \<longrightarrow> map_of result1 ''previous_state'' = map_of result ''previous_state'')"
  using assms
  by (auto simp: perform_action_def invoke_def update_conv' split: if_splits prod.splits sum.splits)

subsection \<open>RESET\<close>

text \<open>
  C1 (amended). When the observed state is RUNNING and the action is RESET, STOP is dispatched
  and, as soon as that call returns, START, with no query in between: if the backend accepts
  both, exactly these two calls are made and the status is "Action initiated". If STOP raises,
  START is not dispatched; if either call raises, the result is the error object. When the
  observed state is STOPPED, only START is dispatched, with status "Action initiated" if the
  backend accepts it and the error object if it raises.
\<close>

theorem reset_dispatch:
  assumes "resolve_region instance_id region = Some r"
    and "client_error env r = None"
    and "str_upper action = ''RESET''"
    and "compute_get_instance env (Some r) instance_id (bstate w) = (Inr inst, s1)"
  shows "(lifecycle_state inst = ''RUNNING'' \<and>
          compute_instance_action_api env (Some r) instance_id ''STOP'' s1 = (Inr u1, s2) \<and>
          compute_instance_action_api env (Some r) instance_id ''START'' s2 = (Inr u2, s3)
          \<longrightarrow> compute_instance_action env instance_id action region w =
                (JObject [(''instance_id'', JString instance_id),
                          (''instance_name'', JString (display_name inst)),
                          (''action_requested'', JString ''RESET''),
                          (''previous_state'', JString ''RUNNING''),
                          (''message'', JString ''Instance reset initiated (stop then start)''),
                          (''status'', JString ''Action initiated'')],
                 \<lparr>bstate = s3,
                  trace = trace w @ [Returned (GetInstance (Some r) instance_id),
                                     Returned (InstanceAction (Some r) instance_id ''STOP''),
                                     Returned (InstanceAction (Some r) instance_id ''START'')]\<rparr>))
       \<and> (lifecycle_state inst = ''RUNNING'' \<and>
          compute_instance_action_api env (Some r) instance_id ''STOP'' s1 = (Inl e, s2)
          \<longrightarrow> compute_instance_action env instance_id action region w =
                (error_json (''Failed to perform instance action: '' @ e),
                 \<lparr>bstate = s2,
                  trace = trace w @ [Returned (GetInstance (Some r) instance_id),
                                     Raised (InstanceAction (Some r) instance_id ''STOP'') e]\<rparr>))
       \<and> (lifecycle_state inst = ''RUNNING'' \<and>
          compute_instance_action_api env (Some r) instance_id ''STOP'' s1 = (Inr u1, s2) \<and>
          compute_instance_action_api env (Some r) instance_id ''START'' s2 = (Inl e, s3)
          \<longrightarrow> compute_instance_action env instance_id action region w =
                (error_json (''Failed to perform instance action: '' @ e),
                 \<lparr>bstate = s3,
                  trace = trace w @ [Returned (GetInstance (Some r) instance_id),
                                     Returned (InstanceAction (Some r) instance_id ''STOP''),
                                     Raised (InstanceAction (Some r) instance_id ''START'') e]\<rparr>))
       \<and> (lifecycle_state inst = ''STOPPED'' \<and>
          compute_instance_action_api env (Some r) instance_id ''START'' s1 = (Inr u2, s3)
          \<longrightarrow> compute_instance_action env instance_id action region w =
                (JObject [(''instance_id'', JString instance_id),
                          (''instance_name'', JString (display_name inst)),
                          (''action_requested'', JString ''RESET''),
                          (''previous_state'', JString ''STOPPED''),
                          (''message'', JString ''Instance start initiated (was already stopped)''),
                          (''status'', JString ''Action initiated'')],
                 \<lparr>bstate = s3,
                  trace = trace w @ [Returned (GetInstance (Some r) instance_id),
                                     Returned (InstanceAction (Some r) instance_id ''START'')]\<rparr>))
       \<and> (lifecycle_state inst = ''STOPPED'' \<and>
          compute_instance_action_api env (Some r) instance_id ''START'' s1 = (Inl e, s3)
          \<longrightarrow> compute_instance_action env instance_id action region w =
                (error_json (''Failed to perform instance action: '' @ e),
                 \<lparr>bstate = s3,
                  trace = trace w @ [Returned (GetInstance (Some r) instance_id),
                                     Raised (InstanceAction (Some r) instance_id ''START'') e]\<rparr>))"
proof -
  have valid: "str_upper action \<in> set valid_actions"
    using assms(3) by (simp add: valid_actions_def)
  note run = compute_instance_action_observed [OF assms(1) assms(2) valid assms(4)]
  show ?thesis
    unfolding run assms(3)
    by (simp add: perform_action_def invoke_def)
qed

text \<open>
  The sample backend, instance RUNNING, action \<^verbatim>\<open>"reset"\<close>, region omitted: STOP then START.
  The same with the instance STOPPED and action \<^verbatim>\<open>"Reset"\<close>: START alone.
\<close>

theorem reset_dispatch_witness:
  "compute_instance_action demo_env demo_id ''reset'' None (demo_world ''RUNNING'') =
     (JObject [(''instance_id'', JString demo_id),
               (''instance_name'', JString ''Web-01''),
               (''action_requested'', JString ''RESET''),
               (''previous_state'', JString ''RUNNING''),
               (''message'', JString ''Instance reset initiated (stop then start)''),
               (''status'', JString ''Action initiated'')],
      \<lparr>bstate = ''STARTING'',
       trace = [Returned (GetInstance (Some ''iad'') demo_id),
                Returned (InstanceAction (Some ''iad'') demo_id ''STOP''),
                Returned (InstanceAction (Some ''iad'') demo_id ''START'')]\<rparr>)
   \<and> compute_instance_action demo_env demo_id ''Reset'' None (demo_world ''STOPPED'') =
     (JObject [(''instance_id'', JString demo_id),
               (''instance_name'', JString ''Web-01''),
               (''action_requested'', JString ''RESET''),
               (''previous_state'', JString ''STOPPED''),
               (''message'', JString ''Instance start initiated (was already stopped)''),
               (''status'', JString ''Action initiated'')],
      \<lparr>bstate = ''STARTING'',
       trace = [Returned (GetInstance (Some ''iad'') demo_id),
                Returned (InstanceAction (Some ''iad'') demo_id ''START'')]\<rparr>)"
proof -
  have lower_case: "str_upper ''reset'' = ''RESET''"
    by code_simp
  have mixed_case: "str_upper ''Reset'' = ''RESET''"
    by code_simp
  have "compute_instance_action demo_env demo_id ''reset'' None (demo_world ''RUNNING'') =
     (JObject [(''instance_id'', JString demo_id),
               (''instance_name'', JString ''Web-01''),
               (''action_requested'', JString ''RESET''),
               (''previous_state'', JString ''RUNNING''),
               (''message'', JString ''Instance reset initiated (stop then start)''),
               (''status'', JString ''Action initiated'')],
      \<lparr>bstate = ''STARTING'',
       trace = [Returned (GetInstance (Some ''iad'') demo_id),
                Returned (InstanceAction (Some ''iad'') demo_id ''STOP''),
                Returned (InstanceAction (Some ''iad'') demo_id ''START'')]\<rparr>)"
    using reset_dispatch [OF demo_region demo_client(1) lower_case
        demo_get_instance(1) [where st = "''RUNNING''"],
        where ?u1.0 = "()" and ?s2.0 = "''STOPPING''" and ?u2.0 = "()" and ?s3.0 = "''STARTING''"]
    by (simp add: demo_action demo_state demo_world_def)
  moreover
  have "compute_instance_action demo_env demo_id ''Reset'' None (demo_world ''STOPPED'') =
     (JObject [(''instance_id'', JString demo_id),
               (''instance_name'', JString ''Web-01''),
               (''action_requested'', JString ''RESET''),
               (''previous_state'', JString ''STOPPED''),
               (''message'', JString ''Instance start initiated (was already stopped)''),
               (''status'', JString ''Action initiated'')],
      \<lparr>bstate = ''STARTING'',
       trace = [Returned (GetInstance (Some ''iad'') demo_id),
                Returned (InstanceAction (Some ''iad'') demo_id ''START'')]\<rparr>)"
    using reset_dispatch [OF demo_region demo_client(1) mixed_case
        demo_get_instance(1) [where st = "''STOPPED''"],
        where ?u2.0 = "()" and ?s3.0 = "''STARTING''"]
    by (simp add: demo_action demo_state demo_world_def)
  ultimately show ?thesis
    by simp
qed

text \<open>
  C1 as stated fails when the backend refuses STOP: the observed state is RUNNING and the
  action is RESET, yet one call is dispatched, not two, and the result carries no status.
\<close>

theorem reset_refused_counterexample:
  "map_sum id lifecycle_state
       (fst (compute_get_instance refusing_env (Some ''iad'') demo_id ''RUNNING'')) = Inr ''RUNNING''
   \<and> action_calls (trace (snd (compute_instance_action refusing_env demo_id ''RESET'' None
                                (demo_world ''RUNNING'')))) = [''STOP'']
   \<and> json_get ''status'' (fst (compute_instance_action refusing_env demo_id ''RESET'' None
                                (demo_world ''RUNNING''))) = None
   \<and> is_error (fst (compute_instance_action refusing_env demo_id ''RESET'' None
                      (demo_world ''RUNNING'')))"
  by code_simp

subsection \<open>START and STOP\<close>

text \<open>
  C2 (amended). When the observed state is STOPPED and the action is START, exactly one
  call (START) is dispatched; the result has status "Action initiated" if the backend accepts
  the call and is the error object if the call raises. Symmetrically for RUNNING and STOP.
\<close>

theorem start_stop_dispatch:
  assumes "resolve_region instance_id region = Some r"
    and "client_error env r = None"
    and "compute_get_instance env (Some r) instance_id (bstate w) = (Inr inst, s1)"
  shows "(str_upper action = ''START'' \<and> lifecycle_state inst = ''STOPPED'' \<and>
          compute_instance_action_api env (Some r) instance_id ''START'' s1 = (Inr u, s2)
          \<longrightarrow> compute_instance_action env instance_id action region w =
                (JObject [(''instance_id'', JString instance_id),
                          (''instance_name'', JString (display_name inst)),
                          (''action_requested'', JString ''START''),
                          (''previous_state'', JString ''STOPPED''),
                          (''status'', JString ''Action initiated''),
                          (''message'', JString ''Instance start initiated'')],
                 \<lparr>bstate = s2,
                  trace = trace w @ [Returned (GetInstance (Some r) instance_id),
                                     Returned (InstanceAction (Some r) instance_id ''START'')]\<rparr>))
       \<and> (str_upper action = ''START'' \<and> lifecycle_state inst = ''STOPPED'' \<and>
          compute_instance_action_api env (Some r) instance_id ''START'' s1 = (Inl e, s2)
          \<longrightarrow> compute_instance_action env instance_id action region w =
                (error_json (''Failed to perform instance action: '' @ e),
                 \<lparr>bstate = s2,
                  trace = trace w @ [Returned (GetInstance (Some r) instance_id),
                                     Raised (InstanceAction (Some r) instance_id ''START'') e]\<rparr>))
       \<and> (str_upper action = ''STOP'' \<and> lifecycle_state inst = ''RUNNING'' \<and>
          compute_instance_action_api env (Some r) instance_id ''STOP'' s1 = (Inr u, s2)
          \<longrightarrow> compute_instance_action env instance_id action region w =
                (JObject [(''instance_id'', JString instance_id),
                          (''instance_name'', JString (display_name inst)),
                          (''action_requested'', JString ''STOP''),
                          (''previous_state'', JString ''RUNNING''),
                          (''status'', JString ''Action initiated''),
                          (''message'', JString ''Instance stop initiated'')],
                 \<lparr>bstate = s2,
                  trace = trace w @ [Returned (GetInstance (Some r) instance_id),
                                     Returned (InstanceAction (Some r) instance_id ''STOP'')]\<rparr>))
       \<and> (str_upper action = ''STOP'' \<and> lifecycle_state inst = ''RUNNING'' \<and>
          compute_instance_action_api env (Some r) instance_id ''STOP'' s1 = (Inl e, s2)
          \<longrightarrow> compute_instance_action env instance_id action region w =
                (error_json (''Failed to perform instance action: '' @ e),
                 \<lparr>bstate = s2,
                  trace = trace w @ [Returned (GetInstance (Some r) instance_id),
                                     Raised (InstanceAction (Some r) instance_id ''STOP'') e]\<rparr>))"
proof -
  have run: "str_upper action = a \<Longrightarrow> a \<in> set valid_actions \<Longrightarrow>
      compute_instance_action env instance_id action region w =
     (case perform_action env (Some r) instance_id a (lifecycle_state inst)
             [(''instance_id'', JString instance_id),
              (''instance_name'', JString (display_name inst)),
              (''action_requested'', JString a),
              (''previous_state'', JString (lifecycle_state inst))]
             \<lparr>bstate = s1, trace = trace w @ [Returned (GetInstance (Some r) instance_id)]\<rparr> of
        (Inl e, w2) \<Rightarrow> (error_json (''Failed to perform instance action: '' @ e), w2)
      | (Inr result1, w2) \<Rightarrow> (JObject result1, w2))" for a
    using compute_instance_action_observed [OF assms(1) assms(2) _ assms(3), of action] by simp
  have start: "''START'' \<in> set valid_actions" and stop: "''STOP'' \<in> set valid_actions"
    by (simp_all add: valid_actions_def)
  show ?thesis
    by (intro conjI impI; elim conjE)
       (simp_all add: run [OF _ start] run [OF _ stop] perform_action_def invoke_def)
qed

text \<open>
  The scenario of the specification: \<^verbatim>\<open>"stop"\<close> on the RUNNING instance dispatches one STOP;
  and \<^verbatim>\<open>"Start"\<close> on the STOPPED instance dispatches one START.
\<close>

theorem start_stop_dispatch_witness:
  "compute_instance_action demo_env demo_id ''stop'' None (demo_world ''RUNNING'') =
     (JObject [(''instance_id'', JString demo_id),
               (''instance_name'', JString ''Web-01''),
               (''action_requested'', JString ''STOP''),
               (''previous_state'', JString ''RUNNING''),
               (''status'', JString ''Action initiated''),
               (''message'', JString ''Instance stop initiated'')],
      \<lparr>bstate = ''STOPPING'',
       trace = [Returned (GetInstance (Some ''iad'') demo_id),
                Returned (InstanceAction (Some ''iad'') demo_id ''STOP'')]\<rparr>)
   \<and> compute_instance_action demo_env demo_id ''Start'' None (demo_world ''STOPPED'') =
     (JObject [(''instance_id'', JString demo_id),
               (''instance_name'', JString ''Web-01''),
               (''action_requested'', JString ''START''),
               (''previous_state'', JString ''STOPPED''),
               (''status'', JString ''Action initiated''),
               (''message'', JString ''Instance start initiated'')],
      \<lparr>bstate = ''STARTING'',
       trace = [Returned (GetInstance (Some ''iad'') demo_id),
                Returned (InstanceAction (Some ''iad'') demo_id ''START'')]\<rparr>)"
proof -
  have lower_case: "str_upper ''stop'' = ''STOP''"
    by code_simp
  have mixed_case: "str_upper ''Start'' = ''START''"
    by code_simp
  have "compute_instance_action demo_env demo_id ''stop'' None (demo_world ''RUNNING'') =
     (JObject [(''instance_id'', JString demo_id),
               (''instance_name'', JString ''Web-01''),
               (''action_requested'', JString ''STOP''),
               (''previous_state'', JString ''RUNNING''),
               (''status'', JString ''Action initiated''),
               (''message'', JString ''Instance stop initiated'')],
      \<lparr>bstate = ''STOPPING'',
       trace = [Returned (GetInstance (Some ''iad'') demo_id),
                Returned (InstanceAction (Some ''iad'') demo_id ''STOP'')]\<rparr>)"
    using start_stop_dispatch [OF demo_region demo_client(1)
        demo_get_instance(1) [where st = "''RUNNING''"],
        where action = "''stop''" and u = "()" and ?s2.0 = "''STOPPING''"]
    by (simp add: lower_case demo_action demo_state demo_world_def)
  moreover
  have "compute_instance_action demo_env demo_id ''Start'' None (demo_world ''STOPPED'') =
     (JObject [(''instance_id'', JString demo_id),
               (''instance_name'', JString ''Web-01''),
               (''action_requested'', JString ''START''),
               (''previous_state'', JString ''STOPPED''),
               (''status'', JString ''Action initiated''),
               (''message'', JString ''Instance start initiated'')],
      \<lparr>bstate = ''STARTING'',
       trace = [Returned (GetInstance (Some ''iad'') demo_id),
                Returned (InstanceAction (Some ''iad'') demo_id ''START'')]\<rparr>)"
    using start_stop_dispatch [OF demo_region demo_client(1)
        demo_get_instance(1) [where st = "''STOPPED''"],
        where action = "''Start''" and u = "()" and ?s2.0 = "''STARTING''"]
    by (simp add: mixed_case demo_action demo_state demo_world_def)
  ultimately show ?thesis
    by simp
qed

text \<open>
  C2 as stated fails when the backend refuses START: the observed state is STOPPED and the
  action is START, one call is dispatched, and the result carries no status.
\<close>

theorem start_refused_counterexample:
  "map_sum id lifecycle_state
       (fst (compute_get_instance refusing_env (Some ''iad'') demo_id ''STOPPED'')) = Inr ''STOPPED''
   \<and> action_calls (trace (snd (compute_instance_action refusing_env demo_id ''START'' None
                                (demo_world ''STOPPED'')))) = [''START'']
   \<and> json_get ''status'' (fst (compute_instance_action refusing_env demo_id ''START'' None
                                (demo_world ''STOPPED''))) = None
   \<and> is_error (fst (compute_instance_action refusing_env demo_id ''START'' None
                      (demo_world ''STOPPED'')))"
  by code_simp

text \<open>
  C3. START on an instance that is not STOPPED, and STOP on an instance that is not RUNNING,
  dispatch no lifecycle action: the only backend call is the query that observes the state, and
  the status is "No action needed".
\<close>

theorem no_action_needed:
  assumes "resolve_region instance_id region = Some r"
    and "client_error env r = None"
    and "compute_get_instance env (Some r) instance_id (bstate w) = (Inr inst, s1)"
    and "str_upper action = ''START'' \<and> lifecycle_state inst \<noteq> ''STOPPED''
         \<or> str_upper action = ''STOP'' \<and> lifecycle_state inst \<noteq> ''RUNNING''"
  shows "compute_instance_action env instance_id action region w =
           (JObject [(''instance_id'', JString instance_id),
                     (''instance_name'', JString (display_name inst)),
                     (''action_requested'', JString (str_upper action)),
                     (''previous_state'', JString (lifecycle_state inst)),
                     (''status'', JString ''No action needed''),
                     (''message'', JString (''Instance is already in state: '' @ lifecycle_state inst))],
            \<lparr>bstate = s1, trace = trace w @ [Returned (GetInstance (Some r) instance_id)]\<rparr>)"
proof -
  have valid: "str_upper action \<in> set valid_actions"
    using assms(4) by (auto simp: valid_actions_def)
  note run = compute_instance_action_observed [OF assms(1) assms(2) valid assms(3)]
  from assms(4) show ?thesis
    unfolding run
    by (auto simp: perform_action_def)
qed

text \<open>
  \<^verbatim>\<open>"start"\<close> on a PROVISIONING instance, \<^verbatim>\<open>"START"\<close> on a RUNNING one and, the scenario
  of the specification, \<^verbatim>\<open>"STOP"\<close> on a STOPPED one.
\<close>

theorem no_action_needed_witness:
  "snd (compute_instance_action demo_env demo_id ''start'' None (demo_world ''PROVISIONING'')) =
      \<lparr>bstate = ''PROVISIONING'', trace = [Returned (GetInstance (Some ''iad'') demo_id)]\<rparr>
   \<and> json_get ''status''
        (fst (compute_instance_action demo_env demo_id ''start'' None (demo_world ''PROVISIONING'')))
      = Some (JString ''No action needed'')
   \<and> compute_instance_action demo_env demo_id ''STOP'' None (demo_world ''STOPPED'') =
      (JObject [(''instance_id'', JString demo_id),
                (''instance_name'', JString ''Web-01''),
                (''action_requested'', JString ''STOP''),
                (''previous_state'', JString ''STOPPED''),
                (''status'', JString ''No action needed''),
                (''message'', JString ''Instance is already in state: STOPPED'')],
       \<lparr>bstate = ''STOPPED'', trace = [Returned (GetInstance (Some ''iad'') demo_id)]\<rparr>)"
proof -
  have lower_case: "str_upper ''start'' = ''START''"
    by code_simp
  have upper_case: "str_upper ''STOP'' = ''STOP''"
    by code_simp
  have first: "compute_instance_action demo_env demo_id ''start'' None (demo_world ''PROVISIONING'') =
      (JObject [(''instance_id'', JString demo_id),
                (''instance_name'', JString ''Web-01''),
                (''action_requested'', JString ''START''),
                (''previous_state'', JString ''PROVISIONING''),
                (''status'', JString ''No action needed''),
                (''message'', JString ''Instance is already in state: PROVISIONING'')],
       \<lparr>bstate = ''PROVISIONING'', trace = [Returned (GetInstance (Some ''iad'') demo_id)]\<rparr>)"
    using no_action_needed [OF demo_region demo_client(1)
        demo_get_instance(1) [where st = "''PROVISIONING''"], where action = "''start''"]
    by (simp add: lower_case demo_state demo_world_def)
  have second: "compute_instance_action demo_env demo_id ''STOP'' None (demo_world ''STOPPED'') =
      (JObject [(''instance_id'', JString demo_id),
                (''instance_name'', JString ''Web-01''),
                (''action_requested'', JString ''STOP''),
                (''previous_state'', JString ''STOPPED''),
                (''status'', JString ''No action needed''),
                (''message'', JString ''Instance is already in state: STOPPED'')],
       \<lparr>bstate = ''STOPPED'', trace = [Returned (GetInstance (Some ''iad'') demo_id)]\<rparr>)"
    using no_action_needed [OF demo_region demo_client(1)
        demo_get_instance(1) [where st = "''STOPPED''"], where action = "''STOP''"]
    by (simp add: upper_case demo_state demo_world_def)
  show ?thesis
    unfolding first second by simp
qed

text \<open>
  C4. RESET on an instance that is neither RUNNING nor STOPPED dispatches no lifecycle action
  and has status "Cannot reset".
\<close>

theorem cannot_reset:
  assumes "resolve_region instance_id region = Some r"
    and "client_error env r = None"
    and "compute_get_instance env (Some r) instance_id (bstate w) = (Inr inst, s1)"
    and "str_upper action = ''RESET''"
    and "lifecycle_state inst \<noteq> ''RUNNING''"
    and "lifecycle_state inst \<noteq> ''STOPPED''"
  shows "compute_instance_action env instance_id action region w =
           (JObject [(''instance_id'', JString instance_id),
                     (''instance_name'', JString (display_name inst)),
                     (''action_requested'', JString ''RESET''),
                     (''previous_state'', JString (lifecycle_state inst)),
                     (''status'', JString ''Cannot reset''),
                     (''message'', JString (''Cannot reset instance in state: '' @ lifecycle_state inst))],
            \<lparr>bstate = s1, trace = trace w @ [Returned (GetInstance (Some r) instance_id)]\<rparr>)"
proof -
  have valid: "str_upper action \<in> set valid_actions"
    using assms(4) by (simp add: valid_actions_def)
  note run = compute_instance_action_observed [OF assms(1) assms(2) valid assms(3)]
  show ?thesis
    unfolding run assms(4)
    using assms(5,6) by (simp add: perform_action_def)
qed

text \<open>\<^verbatim>\<open>"reset"\<close> on a TERMINATED instance.\<close>

theorem cannot_reset_witness:
  "compute_instance_action demo_env demo_id ''reset'' None (demo_world ''TERMINATED'') =
      (JObject [(''instance_id'', JString demo_id),
                (''instance_name'', JString ''Web-01''),
                (''action_requested'', JString ''RESET''),
                (''previous_state'', JString ''TERMINATED''),
                (''status'', JString ''Cannot reset''),
                (''message'', JString ''Cannot reset instance in state: TERMINATED'')],
       \<lparr>bstate = ''TERMINATED'', trace = [Returned (GetInstance (Some ''iad'') demo_id)]\<rparr>)"
proof -
  have lower_case: "str_upper ''reset'' = ''RESET''"
    by code_simp
  show ?thesis
    using cannot_reset [OF demo_region demo_client(1)
        demo_get_instance(1) [where st = "''TERMINATED''"] lower_case]
    by (simp add: demo_state demo_world_def)
qed

subsection \<open>Validation\<close>

text \<open>
  C6 (amended). The action is case-insensitive: an invocation with action \<open>s\<close> is the
  invocation with \<open>s\<close> in upper case. When the region is given or can be taken from the
  identifier and the regional client is built, an action whose upper case form is none of START,
  STOP, RESET yields the error object whose message names the action and lists
  START, STOP, RESET, and no backend call is made.
\<close>

theorem action_case_insensitive:
  "compute_instance_action env instance_id (str_upper action) region w =
     compute_instance_action env instance_id action region w
   \<and> (resolve_region instance_id region = Some r \<and> client_error env r = None \<and>
      str_upper action \<notin> {''START'', ''STOP'', ''RESET''}
      \<longrightarrow> compute_instance_action env instance_id action region w =
            (error_json (''Invalid action '' @ apostrophe @ str_upper action @ apostrophe
                          @ ''. Valid actions are: START, STOP, RESET''), w))"
proof -
  have same: "compute_instance_action_try env instance_id (str_upper action) x w =
                compute_instance_action_try env instance_id action x w" for x
    by (simp add: compute_instance_action_try_def str_upper_idem Let_def split: option.splits)
  have refused: "compute_instance_action env instance_id action region w =
            (error_json (''Invalid action '' @ apostrophe @ str_upper action @ apostrophe
                          @ ''. Valid actions are: START, STOP, RESET''), w)"
    if "resolve_region instance_id region = Some r" "client_error env r = None"
      "str_upper action \<notin> {''START'', ''STOP'', ''RESET''}"
  proof -
    from that(3) have "str_upper action \<notin> set valid_actions"
      by (simp add: valid_actions_def)
    with that(1,2) show ?thesis
      by (simp add: compute_instance_action_def compute_instance_action_try_def
          valid_actions_listed Let_def)
  qed
  have "compute_instance_action env instance_id (str_upper action) region w =
          compute_instance_action env instance_id action region w"
    by (simp add: compute_instance_action_def same split: option.splits)
  with refused show ?thesis
    by blast
qed

text \<open>\<^verbatim>\<open>"start"\<close>, \<^verbatim>\<open>"Start"\<close> and \<^verbatim>\<open>"START"\<close> are one action; \<^verbatim>\<open>"Launch"\<close> is refused.\<close>

theorem action_case_insensitive_witness:
  "compute_instance_action demo_env demo_id ''start'' None (demo_world ''STOPPED'') =
     compute_instance_action demo_env demo_id ''START'' None (demo_world ''STOPPED'')
   \<and> compute_instance_action demo_env demo_id ''Start'' None (demo_world ''STOPPED'') =
     compute_instance_action demo_env demo_id ''START'' None (demo_world ''STOPPED'')
   \<and> compute_instance_action demo_env demo_id ''Launch'' None (demo_world ''STOPPED'') =
     (error_json (''Invalid action '' @ apostrophe @ ''LAUNCH'' @ apostrophe
                   @ ''. Valid actions are: START, STOP, RESET''), demo_world ''STOPPED'')"
proof -
  have lower_case: "str_upper ''start'' = ''START''"
    by code_simp
  have mixed_case: "str_upper ''Start'' = ''START''"
    by code_simp
  have launch: "str_upper ''Launch'' = ''LAUNCH''"
    by code_simp
  note inst = action_case_insensitive [where env = demo_env and instance_id = demo_id
      and region = None and r = "''iad''" and w = "demo_world ''STOPPED''"]
  from inst [where action = "''start''"] inst [where action = "''Start''"]
    inst [where action = "''Launch''"]
  show ?thesis
    by (simp add: lower_case mixed_case launch demo_region demo_client)
qed

text \<open>
  C6 as stated fails when the identifier has no region segment and no region is given: the
  action \<^verbatim>\<open>"LAUNCH"\<close> is not valid, yet the error is the one about the identifier.
\<close>

theorem invalid_action_counterexample:
  "str_upper ''LAUNCH'' \<notin> set valid_actions
   \<and> compute_instance_action demo_env ''abc'' ''LAUNCH'' None (demo_world ''RUNNING'') =
       (error_json ''Invalid instance_id format. Cannot extract region.'', demo_world ''RUNNING'')"
  by code_simp

text \<open>
  C7. With the region omitted (\<^verbatim>\<open>None\<close> or empty) the invocation is the one with the fourth
  dot-delimited segment of the identifier as region, \<^verbatim>\<open>"iad"\<close> for
  \<^verbatim>\<open>"ocid1.instance.oc1.iad.xyz"\<close>; with fewer than four segments it returns the error object
  about the identifier and makes no backend call.
\<close>

theorem region_from_identifier:
  "resolve_region ''ocid1.instance.oc1.iad.xyz'' None = Some ''iad''
   \<and> (\<not> truthy region \<and> 4 \<le> length (str_split (CHR ''.'') instance_id)
      \<longrightarrow> resolve_region instance_id region = Some (str_split (CHR ''.'') instance_id ! 3)
        \<and> compute_instance_action env instance_id action region w =
            compute_instance_action env instance_id action
              (Some (str_split (CHR ''.'') instance_id ! 3)) w)
   \<and> (\<not> truthy region \<and> length (str_split (CHR ''.'') instance_id) < 4
      \<longrightarrow> compute_instance_action env instance_id action region w =
            (error_json ''Invalid instance_id format. Cannot extract region.'', w))"
proof -
  have example: "resolve_region ''ocid1.instance.oc1.iad.xyz'' None = Some ''iad''"
    by (simp add: resolve_region_def)
  have same: "resolve_region instance_id (Some (str_split (CHR ''.'') instance_id ! 3)) =
                Some (str_split (CHR ''.'') instance_id ! 3)"
    if "4 \<le> length (str_split (CHR ''.'') instance_id)"
    using that by (simp add: resolve_region_def Let_def)
  have derived: "resolve_region instance_id region = Some (str_split (CHR ''.'') instance_id ! 3)"
    if "\<not> truthy region" "4 \<le> length (str_split (CHR ''.'') instance_id)"
    using that by (simp add: resolve_region_def Let_def)
  have short: "resolve_region instance_id region = None"
    if "\<not> truthy region" "length (str_split (CHR ''.'') instance_id) < 4"
    using that by (simp add: resolve_region_def Let_def)
  show ?thesis
    using example same derived short
    by (simp add: compute_instance_action_def)
qed

text \<open>The identifier of the specification, and one with three segments.\<close>

theorem region_from_identifier_witness:
  "compute_instance_action demo_env ''ocid1.instance.oc1.iad.xyz'' ''stop'' None (demo_world ''RUNNING'') =
     compute_instance_action demo_env ''ocid1.instance.oc1.iad.xyz'' ''stop'' (Some ''iad'')
       (demo_world ''RUNNING'')
   \<and> compute_instance_action demo_env ''ocid1.instance.oc1'' ''stop'' (Some []) (demo_world ''RUNNING'') =
     (error_json ''Invalid instance_id format. Cannot extract region.'', demo_world ''RUNNING'')"
proof -
  have four: "str_split (CHR ''.'') ''ocid1.instance.oc1.iad.xyz'' =
                [''ocid1'', ''instance'', ''oc1'', ''iad'', ''xyz'']"
    by simp
  have three: "str_split (CHR ''.'') ''ocid1.instance.oc1'' = [''ocid1'', ''instance'', ''oc1'']"
    by simp
  from region_from_identifier [where region = None and instance_id = "''ocid1.instance.oc1.iad.xyz''"
      and env = demo_env and action = "''stop''" and w = "demo_world ''RUNNING''"]
    region_from_identifier [where region = "Some []" and instance_id = "''ocid1.instance.oc1''"
      and env = demo_env and action = "''stop''" and w = "demo_world ''RUNNING''"]
  show ?thesis
    unfolding four three by simp
qed

subsection \<open>The state query\<close>

lemma is_error_error_json: "is_error (error_json msg)"
  by (simp add: error_json_def)

lemma query_then_actions:
  assumes "resolve_region instance_id region = Some r"
    and "client_error env r = None"
    and "str_upper action \<in> set valid_actions"
    and "compute_instance_action env instance_id action region w = (j, w')"
  shows "\<exists>ev evs. trace w' = trace w @ ev # evs
           \<and> call_of ev = GetInstance (Some r) instance_id
           \<and> (\<forall>x \<in> set evs. \<exists>a. call_of x = InstanceAction (Some r) instance_id a)
           \<and> (\<not> is_error j
                \<longrightarrow> (\<exists>inst. fst (compute_get_instance env (Some r) instance_id (bstate w)) = Inr inst
                       \<and> json_get ''previous_state'' j = Some (JString (lifecycle_state inst))))"
proof (cases "compute_get_instance env (Some r) instance_id (bstate w)")
  case (Pair res s1)
  show ?thesis
  proof (cases res)
    case (Inl e)
    with Pair assms show ?thesis
      by (auto simp: compute_instance_action_def compute_instance_action_try_def invoke_def
          error_json_def)
  next
    case (Inr inst)
    let ?w1 = "\<lparr>bstate = s1, trace = trace w @ [Returned (GetInstance (Some r) instance_id)]\<rparr>"
    let ?base = "[(''instance_id'', JString instance_id),
                  (''instance_name'', JString (display_name inst)),
                  (''action_requested'', JString (str_upper action)),
                  (''previous_state'', JString (lifecycle_state inst))]"
    obtain res2 w2 where performed:
      "perform_action env (Some r) instance_id (str_upper action) (lifecycle_state inst) ?base ?w1
         = (res2, w2)"
      by (cases "perform_action env (Some r) instance_id (str_upper action) (lifecycle_state inst)
                   ?base ?w1")
    from perform_action_trace [OF performed]
    obtain evs where evs: "trace w2 = trace ?w1 @ evs"
      "\<forall>x \<in> set evs. \<exists>a. call_of x = InstanceAction (Some r) instance_id a"
      "\<forall>result1. res2 = Inr result1
          \<longrightarrow> map_of result1 ''previous_state'' = map_of ?base ''previous_state''"
      by blast
    have get: "compute_get_instance env (Some r) instance_id (bstate w) = (Inr inst, s1)"
      using Pair Inr by simp
    have run: "(j, w') = (case res2 of
                  Inl e \<Rightarrow> (error_json (''Failed to perform instance action: '' @ e), w2)
                | Inr result1 \<Rightarrow> (JObject result1, w2))"
      using compute_instance_action_observed [OF assms(1-3) get] assms(4) performed
      by simp
    show ?thesis
    proof (cases res2)
      case (Inl e)
      with run evs get show ?thesis
        by (auto simp: error_json_def)
    next
      case result: (Inr result1)
      with run evs get show ?thesis
        by auto
    qed
  qed
qed

text \<open>
  C8. A lifecycle action is never dispatched without the query: the calls of an invocation
  are either none, or the query for the instance followed by lifecycle actions on that instance
  only. An invocation that passes validation, with the regional client built, makes the query,
  on the backend in its current state. When the result is an action result, its field
  \<^verbatim>\<open>previous_state\<close> is the lifecycle state that this query returned.
\<close>

theorem state_queried_before_dispatch:
  assumes "compute_instance_action env instance_id action region w = (j, w')"
  shows "(\<exists>evs. trace w' = trace w @ evs
            \<and> (evs = []
                \<or> (\<exists>r ev rest. resolve_region instance_id region = Some r
                      \<and> evs = ev # rest
                      \<and> call_of ev = GetInstance (Some r) instance_id
                      \<and> (\<forall>x \<in> set rest. \<exists>a. call_of x = InstanceAction (Some r) instance_id a))))
       \<and> ((\<exists>r. resolve_region instance_id region = Some r \<and> client_error env r = None)
            \<and> str_upper action \<in> set valid_actions
            \<longrightarrow> trace w' \<noteq> trace w)
       \<and> (\<not> is_error j
            \<longrightarrow> (\<exists>r inst. resolve_region instance_id region = Some r
                   \<and> fst (compute_get_instance env (Some r) instance_id (bstate w)) = Inr inst
                   \<and> json_get ''previous_state'' j = Some (JString (lifecycle_state inst))))"
proof (cases "\<exists>r. resolve_region instance_id region = Some r \<and> client_error env r = None
                  \<and> str_upper action \<in> set valid_actions")
  case True
  then obtain r where valid: "resolve_region instance_id region = Some r"
    "client_error env r = None" "str_upper action \<in> set valid_actions"
    by blast
  from query_then_actions [OF valid assms]
  obtain ev rest where run: "trace w' = trace w @ ev # rest"
    "call_of ev = GetInstance (Some r) instance_id"
    "\<forall>x \<in> set rest. \<exists>a. call_of x = InstanceAction (Some r) instance_id a"
    "\<not> is_error j
       \<longrightarrow> (\<exists>inst. fst (compute_get_instance env (Some r) instance_id (bstate w)) = Inr inst
              \<and> json_get ''previous_state'' j = Some (JString (lifecycle_state inst)))"
    by blast
  from valid(1) run(1-3) have "\<exists>evs. trace w' = trace w @ evs
            \<and> (evs = []
                \<or> (\<exists>r ev rest. resolve_region instance_id region = Some r
                      \<and> evs = ev # rest
                      \<and> call_of ev = GetInstance (Some r) instance_id
                      \<and> (\<forall>x \<in> set rest. \<exists>a. call_of x = InstanceAction (Some r) instance_id a)))"
    by (intro exI [where x = "ev # rest"]) simp
  moreover from run(1) have "trace w' \<noteq> trace w"
    by simp
  moreover from valid(1) run(4) have "\<not> is_error j
            \<longrightarrow> (\<exists>r inst. resolve_region instance_id region = Some r
                   \<and> fst (compute_get_instance env (Some r) instance_id (bstate w)) = Inr inst
                   \<and> json_get ''previous_state'' j = Some (JString (lifecycle_state inst)))"
    by simp
  ultimately show ?thesis
    by blast
next
  case False
  with assms have "w' = w \<and> is_error j"
    by (auto simp: compute_instance_action_def compute_instance_action_try_def Let_def
        is_error_error_json split: option.splits)
  with False show ?thesis
    by auto
qed

text \<open>\<^verbatim>\<open>"stop"\<close> on the RUNNING instance of the sample backend.\<close>

theorem state_queried_before_dispatch_witness:
  "trace (snd (compute_instance_action demo_env demo_id ''stop'' None (demo_world ''RUNNING'')))
     \<noteq> trace (demo_world ''RUNNING'')
   \<and> (\<exists>r inst. resolve_region demo_id None = Some r
         \<and> fst (compute_get_instance demo_env (Some r) demo_id (bstate (demo_world ''RUNNING''))) = Inr inst
         \<and> json_get ''previous_state''
              (fst (compute_instance_action demo_env demo_id ''stop'' None (demo_world ''RUNNING'')))
            = Some (JString (lifecycle_state inst)))"
proof -
  let ?run = "compute_instance_action demo_env demo_id ''stop'' None (demo_world ''RUNNING'')"
  have valid: "str_upper ''stop'' \<in> set valid_actions"
    by code_simp
  have result: "\<not> is_error (fst ?run)"
    by code_simp
  have run: "?run = (fst ?run, snd ?run)"
    by simp
  from state_queried_before_dispatch [OF run] demo_region demo_client(1) valid result
  show ?thesis
    by blast
qed

section \<open>Compartments and names\<close>

subsection \<open>Auxiliary facts\<close>

lemma invoke_cases:
  assumes "invoke c f w = (res, w')"
  shows "(\<exists>e. res = Inl e \<and> fst (f (bstate w)) = Inl e
            \<and> w' = \<lparr>bstate = snd (f (bstate w)), trace = trace w @ [Raised c e]\<rparr>)
       \<or> (\<exists>v. res = Inr v \<and> fst (f (bstate w)) = Inr v
            \<and> w' = \<lparr>bstate = snd (f (bstate w)), trace = trace w @ [Returned c]\<rparr>)"
  using assms by (auto simp: invoke_def split: prod.splits sum.splits)

lemma get_all_compartments_loop_events:
  assumes "get_all_compartments_loop env pg acc w = Some y"
  shows "\<exists>evs. trace (snd y) = trace w @ evs
           \<and> (\<forall>x \<in> set evs. \<exists>p. call_of x = ListCompartments (tenancy_id env) p)
           \<and> ((\<exists>x \<in> set evs. raised x) \<longleftrightarrow> isl (fst y))
           \<and> (\<forall>cs. fst y = Inr cs \<longrightarrow> (\<exists>more. cs = acc @ more))"
proof (rule get_all_compartments_loop.raw_induct [OF _ assms], goal_cases)
  case (1 loop env pg acc w y)
  let ?c = "ListCompartments (tenancy_id env) (if truthy pg then pg else None)"
  obtain res w1 where inv:
    "invoke ?c (identity_list_compartments env (tenancy_id env) (if truthy pg then pg else None)) w
       = (res, w1)"
    by (cases "invoke ?c
          (identity_list_compartments env (tenancy_id env) (if truthy pg then pg else None)) w")
  show ?case
  proof (cases res)
    case (Inl e)
    with inv 1(2) invoke_cases [OF inv] show ?thesis
      by auto
  next
    case (Inr response)
    show ?thesis
    proof (cases "truthy (next_page response)")
      case False
      with Inr inv 1(2) invoke_cases [OF inv] show ?thesis
        by auto
    next
      case True
      with Inr inv 1(2) have "loop env (next_page response) (acc @ data response) w1 = Some y"
        by (simp add: Let_def)
      from 1(1) [OF this] obtain evs where evs: "trace (snd y) = trace w1 @ evs"
        "\<forall>x \<in> set evs. \<exists>p. call_of x = ListCompartments (tenancy_id env) p"
        "(\<exists>x \<in> set evs. raised x) \<longleftrightarrow> isl (fst y)"
        "\<forall>cs. fst y = Inr cs \<longrightarrow> (\<exists>more. cs = (acc @ data response) @ more)"
        by blast
      from invoke_cases [OF inv] Inr have w1: "trace w1 = trace w @ [Returned ?c]"
        by auto
      show ?thesis
        using evs w1 by (intro exI [where x = "Returned ?c # evs"]) auto
    qed
  qed
qed

lemma get_all_compartments_success:
  assumes "get_all_compartments env w = Some (Inr compartments, w')"
  shows "\<exists>cs root w1. get_all_compartments_loop env None [] w = Some (Inr cs, w1)
           \<and> identity_get_compartment env (tenancy_id env) (bstate w1) = (Inr root, bstate w')
           \<and> trace w' = trace w1 @ [Returned (GetCompartment (tenancy_id env))]
           \<and> compartments = cs @ [root]"
  using assms
  by (auto simp: get_all_compartments_def invoke_def split: option.splits prod.splits sum.splits)

lemma get_all_compartments_events:
  assumes "get_all_compartments env w = Some (res, w')"
  shows "\<exists>evs. trace w' = trace w @ evs \<and> ((\<exists>x \<in> set evs. raised x) \<longleftrightarrow> isl res)"
proof (cases "get_all_compartments_loop env None [] w")
  case None
  with assms show ?thesis
    by (simp add: get_all_compartments_def)
next
  case (Some y)
  obtain res1 w1 where y: "y = (res1, w1)"
    by (cases y)
  from get_all_compartments_loop_events [OF Some] y
  obtain evs where evs: "trace w1 = trace w @ evs" "(\<exists>x \<in> set evs. raised x) \<longleftrightarrow> isl res1"
    by auto
  show ?thesis
  proof (cases res1)
    case (Inl e)
    with assms Some y evs show ?thesis
      by (auto simp: get_all_compartments_def)
  next
    case (Inr cs)
    obtain res2 w2 where inv:
      "invoke (GetCompartment (tenancy_id env)) (identity_get_compartment env (tenancy_id env)) w1
         = (res2, w2)"
      by (cases "invoke (GetCompartment (tenancy_id env))
                   (identity_get_compartment env (tenancy_id env)) w1")
    from assms Some y Inr inv have res: "w' = w2" "isl res \<longleftrightarrow> isl res2"
      by (auto simp: get_all_compartments_def split: sum.splits)
    from invoke_cases [OF inv] evs Inr res show ?thesis
      by (elim disjE exE conjE)
         ((intro exI [where x = "evs @ [Raised (GetCompartment (tenancy_id env)) e]" for e]
             exI [where x = "evs @ [Returned (GetCompartment (tenancy_id env))]"], simp)+)
  qed
qed



lemma first_compartment_named_append:
  "first_compartment_named n (cs @ ds) =
     (case first_compartment_named n cs of
        Some c \<Rightarrow> Some c
      | None \<Rightarrow> first_compartment_named n ds)"
  by (induction cs) simp_all





lemma demo_pages:
  "get_all_compartments_loop demo_env None [] (demo_world st) =
     Some (Inr [demo_compartment ''ocid1.compartment.oc1..dev'' ''Dev'',
                demo_compartment ''ocid1.compartment.oc1..prod'' ''Prod''],
           \<lparr>bstate = st,
            trace = [Returned (ListCompartments ''ocid1.tenancy.oc1..root'' None),
                     Returned (ListCompartments ''ocid1.tenancy.oc1..root'' (Some ''p2''))]\<rparr>)"
  by (simp add: get_all_compartments_loop.simps demo_env_def demo_world_def invoke_def)

lemma demo_all_compartments:
  "get_all_compartments demo_env (demo_world st) =
     Some (Inr [demo_compartment ''ocid1.compartment.oc1..dev'' ''Dev'',
                demo_compartment ''ocid1.compartment.oc1..prod'' ''Prod'',
                demo_compartment ''ocid1.tenancy.oc1..root'' ''Root''],
           \<lparr>bstate = st,
            trace = [Returned (ListCompartments ''ocid1.tenancy.oc1..root'' None),
                     Returned (ListCompartments ''ocid1.tenancy.oc1..root'' (Some ''p2'')),
                     Returned (GetCompartment ''ocid1.tenancy.oc1..root'')]\<rparr>)"
  by (simp add: get_all_compartments_def demo_pages) (simp add: demo_env_def invoke_def)

subsection \<open>The root compartment\<close>

text \<open>
  C9. A successful \<^verbatim>\<open>list_compartments\<close> returns the compartments of all pages followed by the
  root compartment: the pages are fetched first, the root is then fetched with
  \<^verbatim>\<open>get_compartment\<close>, the last backend call, and is the last element of the list. The lookup
  by name searches the same list, so it finds the root when no listed compartment matches.
\<close>

theorem root_compartment_last:
  assumes "list_compartments env w = Some (j, w')"
    and "\<not> is_error j"
  shows "\<exists>cs root w1 evs.
           get_all_compartments_loop env None [] w = Some (Inr cs, w1)
           \<and> trace w1 = trace w @ evs
           \<and> (\<forall>x \<in> set evs. \<exists>p. call_of x = ListCompartments (tenancy_id env) p)
           \<and> identity_get_compartment env (tenancy_id env) (bstate w1) = (Inr root, bstate w')
           \<and> trace w' = trace w1 @ [Returned (GetCompartment (tenancy_id env))]
           \<and> j = JArray (map compartment_json cs @ [compartment_json root])
           \<and> (\<forall>n. get_compartment_by_name env n w =
                    Some (Inr (first_compartment_named n (cs @ [root])), w'))
           \<and> (\<forall>n. first_compartment_named n cs = None \<and> str_lower (c_name root) = str_lower n
                 \<longrightarrow> get_compartment_by_name env n w = Some (Inr (Some root), w'))"
proof -
  from assms obtain compartments where all: "get_all_compartments env w = Some (Inr compartments, w')"
    and j: "j = JArray (map compartment_json compartments)"
    by (auto simp: list_compartments_def error_json_def split: option.splits prod.splits sum.splits)
  from get_all_compartments_success [OF all]
  obtain cs root w1 where loop: "get_all_compartments_loop env None [] w = Some (Inr cs, w1)"
    and root: "identity_get_compartment env (tenancy_id env) (bstate w1) = (Inr root, bstate w')"
    and last: "trace w' = trace w1 @ [Returned (GetCompartment (tenancy_id env))]"
    and compartments: "compartments = cs @ [root]"
    by blast
  from get_all_compartments_loop_events [OF loop]
  obtain evs where evs: "trace w1 = trace w @ evs"
    "\<forall>x \<in> set evs. \<exists>p. call_of x = ListCompartments (tenancy_id env) p"
    by auto
  have by_name: "get_compartment_by_name env n w =
      Some (Inr (first_compartment_named n (cs @ [root])), w')" for n
    using all compartments by (simp add: get_compartment_by_name_def)
  have found: "get_compartment_by_name env n w = Some (Inr (Some root), w')"
    if "first_compartment_named n cs = None" "str_lower (c_name root) = str_lower n" for n
    using that by (simp add: by_name first_compartment_named_append)
  from loop evs root last j compartments by_name found show ?thesis
    by (intro exI [where x = cs] exI [where x = root] exI [where x = w1] exI [where x = evs]) simp
qed

text \<open>The sample backend: two pages, then the root.\<close>

theorem root_compartment_last_witness:
  "list_compartments demo_env (demo_world ''RUNNING'') =
     Some (JArray [compartment_json (demo_compartment ''ocid1.compartment.oc1..dev'' ''Dev''),
                   compartment_json (demo_compartment ''ocid1.compartment.oc1..prod'' ''Prod''),
                   compartment_json (demo_compartment ''ocid1.tenancy.oc1..root'' ''Root'')],
           \<lparr>bstate = ''RUNNING'',
            trace = [Returned (ListCompartments ''ocid1.tenancy.oc1..root'' None),
                     Returned (ListCompartments ''ocid1.tenancy.oc1..root'' (Some ''p2'')),
                     Returned (GetCompartment ''ocid1.tenancy.oc1..root'')]\<rparr>)
   \<and> get_compartment_by_name demo_env ''root'' (demo_world ''RUNNING'') =
     Some (Inr (Some (demo_compartment ''ocid1.tenancy.oc1..root'' ''Root'')),
           \<lparr>bstate = ''RUNNING'',
            trace = [Returned (ListCompartments ''ocid1.tenancy.oc1..root'' None),
                     Returned (ListCompartments ''ocid1.tenancy.oc1..root'' (Some ''p2'')),
                     Returned (GetCompartment ''ocid1.tenancy.oc1..root'')]\<rparr>)"
proof -
  let ?w' = "\<lparr>bstate = ''RUNNING'',
            trace = [Returned (ListCompartments ''ocid1.tenancy.oc1..root'' None),
                     Returned (ListCompartments ''ocid1.tenancy.oc1..root'' (Some ''p2'')),
                     Returned (GetCompartment ''ocid1.tenancy.oc1..root'')]\<rparr>"
  let ?j = "JArray [compartment_json (demo_compartment ''ocid1.compartment.oc1..dev'' ''Dev''),
                   compartment_json (demo_compartment ''ocid1.compartment.oc1..prod'' ''Prod''),
                   compartment_json (demo_compartment ''ocid1.tenancy.oc1..root'' ''Root'')]"
  have listed: "list_compartments demo_env (demo_world ''RUNNING'') = Some (?j, ?w')"
    by (simp add: list_compartments_def demo_all_compartments)
  have no_error: "\<not> is_error ?j"
    by simp
  from root_compartment_last [OF listed no_error]
  obtain cs root w1 where pages: "get_all_compartments_loop demo_env None [] (demo_world ''RUNNING'')
      = Some (Inr cs, w1)"
    and root: "identity_get_compartment demo_env (tenancy_id demo_env) (bstate w1) = (Inr root, bstate ?w')"
    and by_name: "\<forall>n. first_compartment_named n cs = None \<and> str_lower (c_name root) = str_lower n
       \<longrightarrow> get_compartment_by_name demo_env n (demo_world ''RUNNING'') = Some (Inr (Some root), ?w')"
    by blast
  from pages have cs: "cs = [demo_compartment ''ocid1.compartment.oc1..dev'' ''Dev'',
                demo_compartment ''ocid1.compartment.oc1..prod'' ''Prod'']"
    by (simp add: demo_pages)
  from root have root_eq: "root = demo_compartment ''ocid1.tenancy.oc1..root'' ''Root''"
    by (simp add: demo_env_def)
  have lowered: "str_lower ''Dev'' = ''dev''" "str_lower ''Prod'' = ''prod''"
    "str_lower ''Root'' = ''root''" "str_lower ''root'' = ''root''"
    by code_simp+
  have "first_compartment_named ''root'' cs = None \<and> str_lower (c_name root) = str_lower ''root''"
    unfolding cs root_eq by (simp add: demo_compartment_def lowered)
  with by_name have "get_compartment_by_name demo_env ''root'' (demo_world ''RUNNING'') =
      Some (Inr (Some root), ?w')"
    by blast
  with listed root_eq show ?thesis
    by simp
qed

subsection \<open>Lookup by name\<close>




lemma demo_compartment_by_name:
  "get_compartment_by_name demo_env n (demo_world st) =
     Some (Inr (first_compartment_named n
                  [demo_compartment ''ocid1.compartment.oc1..dev'' ''Dev'',
                   demo_compartment ''ocid1.compartment.oc1..prod'' ''Prod'',
                   demo_compartment ''ocid1.tenancy.oc1..root'' ''Root'']),
           \<lparr>bstate = st,
            trace = [Returned (ListCompartments ''ocid1.tenancy.oc1..root'' None),
                     Returned (ListCompartments ''ocid1.tenancy.oc1..root'' (Some ''p2'')),
                     Returned (GetCompartment ''ocid1.tenancy.oc1..root'')]\<rparr>)"
  by (simp add: get_compartment_by_name_def demo_all_compartments)



section \<open>Errors at the tool boundary\<close>

subsection \<open>Auxiliary facts\<close>

lemma invoke_events:
  assumes "invoke c f w = (res, w')"
  shows "\<exists>ev. trace w' = trace w @ [ev] \<and> (raised ev \<longleftrightarrow> isl res)"
  using invoke_cases [OF assms] by auto

lemma get_compartment_by_name_events:
  assumes "get_compartment_by_name env n w = Some (res, w')"
  shows "\<exists>evs. trace w' = trace w @ evs \<and> ((\<exists>x \<in> set evs. raised x) \<longleftrightarrow> isl res)"
proof -
  from assms obtain res0 where all: "get_all_compartments env w = Some (res0, w')"
    and same: "isl res \<longleftrightarrow> isl res0"
    by (auto simp: get_compartment_by_name_def split: option.splits prod.splits sum.splits)
  from get_all_compartments_events [OF all] same show ?thesis
    by simp
qed

lemma list_compartments_errors:
  assumes "list_compartments env w = Some (j, w')"
  shows "\<exists>evs. trace w' = trace w @ evs \<and> ((\<exists>x \<in> set evs. raised x) \<longrightarrow> is_error j)"
proof -
  from assms obtain res where all: "get_all_compartments env w = Some (res, w')"
    and failed: "isl res \<longrightarrow> is_error j"
    by (auto simp: list_compartments_def is_error_error_json
        split: option.splits prod.splits sum.splits)
  from get_all_compartments_events [OF all] failed show ?thesis
    by auto
qed

lemma get_compute_instance_errors:
  assumes "get_compute_instance env instance_id region w = (j, w')"
  shows "(\<exists>evs. trace w' = trace w @ evs \<and> ((\<exists>x \<in> set evs. raised x) \<longrightarrow> is_error j))
       \<and> ((\<exists>e. select_client env region = Inl e) \<longrightarrow> is_error j)"
proof (cases "select_client env region")
  case (Inl e)
  with assms show ?thesis
    by (auto simp: get_compute_instance_def is_error_error_json)
next
  case (Inr client)
  obtain res w1 where inv: "invoke (GetInstance client instance_id)
      (compute_get_instance env client instance_id) w = (res, w1)"
    by (cases "invoke (GetInstance client instance_id)
      (compute_get_instance env client instance_id) w")
  from assms Inr inv have "w' = w1" "isl res \<longrightarrow> is_error j"
    by (auto simp: get_compute_instance_def is_error_error_json split: sum.splits)
  with invoke_events [OF inv] Inr show ?thesis
    by auto
qed

lemma list_compute_instances_errors:
  assumes "list_compute_instances env compartment_name region w = Some (j, w')"
  shows "(\<exists>evs. trace w' = trace w @ evs \<and> ((\<exists>x \<in> set evs. raised x) \<longrightarrow> is_error j))
       \<and> ((\<exists>w1. get_compartment_by_name env compartment_name w = Some (Inr None, w1))
            \<longrightarrow> is_error j)
       \<and> ((\<exists>e. select_client env region = Inl e) \<longrightarrow> is_error j)"
proof -
  from assms obtain res w1 where named: "get_compartment_by_name env compartment_name w = Some (res, w1)"
    by (auto simp: list_compute_instances_def split: option.splits)
  from get_compartment_by_name_events [OF named]
  obtain evs where evs: "trace w1 = trace w @ evs" "(\<exists>x \<in> set evs. raised x) \<longleftrightarrow> isl res"
    by blast
  show ?thesis
  proof (cases res)
    case (Inl e)
    with assms named evs show ?thesis
      by (auto simp: list_compute_instances_def is_error_error_json)
  next
    case (Inr found)
    show ?thesis
    proof (cases found)
      case None
      with assms named evs Inr show ?thesis
        by (auto simp: list_compute_instances_def is_error_error_json)
    next
      case (Some cpt)
      show ?thesis
      proof (cases "select_client env region")
        case (Inl e)
        with assms named evs Inr Some show ?thesis
          by (auto simp: list_compute_instances_def is_error_error_json)
      next
        case client: (Inr client)
        obtain res2 w2 where inv: "invoke (ListInstances client (c_id cpt))
            (compute_list_instances env client (c_id cpt)) w1 = (res2, w2)"
          by (cases "invoke (ListInstances client (c_id cpt))
            (compute_list_instances env client (c_id cpt)) w1")
        from assms named Inr Some client inv have final: "w' = w2" "isl res2 \<longrightarrow> is_error j"
          by (auto simp: list_compute_instances_def is_error_error_json split: sum.splits)
        from invoke_events [OF inv] obtain ev where ev: "trace w2 = trace w1 @ [ev]"
          "raised ev \<longleftrightarrow> isl res2"
          by blast
        have "trace w' = trace w @ (evs @ [ev]) \<and> ((\<exists>x \<in> set (evs @ [ev]). raised x) \<longrightarrow> is_error j)"
          using evs ev final Inr by auto
        then have "\<exists>evs. trace w' = trace w @ evs \<and> ((\<exists>x \<in> set evs. raised x) \<longrightarrow> is_error j)"
          by blast
        with named Inr Some client show ?thesis
          by simp
      qed
    qed
  qed
qed

lemma get_compute_instance_by_name_errors:
  assumes "get_compute_instance_by_name env instance_name compartment_name region w = Some (j, w')"
  shows "(\<exists>evs. trace w' = trace w @ evs \<and> ((\<exists>x \<in> set evs. raised x) \<longrightarrow> is_error j))
       \<and> ((\<exists>w1. get_compartment_by_name env compartment_name w = Some (Inr None, w1))
            \<longrightarrow> is_error j)
       \<and> ((\<exists>e. select_client env region = Inl e) \<longrightarrow> is_error j)
       \<and> ((\<exists>w1 cpt client instances s2.
              get_compartment_by_name env compartment_name w = Some (Inr (Some cpt), w1)
              \<and> select_client env region = Inr client
              \<and> compute_list_instances env client (c_id cpt) (bstate w1) = (Inr instances, s2)
              \<and> first_instance_named instance_name instances = None)
            \<longrightarrow> is_error j)"
proof -
  from assms obtain res w1 where named: "get_compartment_by_name env compartment_name w = Some (res, w1)"
    by (auto simp: get_compute_instance_by_name_def split: option.splits)
  from get_compartment_by_name_events [OF named]
  obtain evs where evs: "trace w1 = trace w @ evs" "(\<exists>x \<in> set evs. raised x) \<longleftrightarrow> isl res"
    by blast
  show ?thesis
  proof (cases res)
    case (Inl e)
    with assms named evs show ?thesis
      by (auto simp: get_compute_instance_by_name_def is_error_error_json)
  next
    case (Inr found)
    show ?thesis
    proof (cases found)
      case None
      with assms named evs Inr show ?thesis
        by (auto simp: get_compute_instance_by_name_def is_error_error_json)
    next
      case (Some cpt)
      show ?thesis
      proof (cases "select_client env region")
        case (Inl e)
        with assms named evs Inr Some show ?thesis
          by (auto simp: get_compute_instance_by_name_def is_error_error_json)
      next
        case client: (Inr client)
        obtain res2 w2 where inv: "invoke (ListInstances client (c_id cpt))
            (compute_list_instances env client (c_id cpt)) w1 = (res2, w2)"
          by (cases "invoke (ListInstances client (c_id cpt))
            (compute_list_instances env client (c_id cpt)) w1")
        from invoke_events [OF inv] obtain ev where ev: "trace w2 = trace w1 @ [ev]"
          "raised ev \<longleftrightarrow> isl res2"
          by blast
        have events: "\<exists>evs. trace w' = trace w @ evs \<and> ((\<exists>x \<in> set evs. raised x) \<longrightarrow> is_error j)"
          and miss: "\<And>instances s2.
              compute_list_instances env client (c_id cpt) (bstate w1) = (Inr instances, s2)
              \<Longrightarrow> first_instance_named instance_name instances = None \<Longrightarrow> is_error j"
        proof -
          show "\<exists>evs. trace w' = trace w @ evs \<and> ((\<exists>x \<in> set evs. raised x) \<longrightarrow> is_error j)"
          proof (cases res2)
            case failed: (Inl e)
            with assms named Inr Some client inv have "w' = w2" "is_error j"
              by (auto simp: get_compute_instance_by_name_def is_error_error_json)
            with evs ev show ?thesis
              by (intro exI [where x = "evs @ [ev]"]) simp
          next
            case listed: (Inr instances)
            show ?thesis
            proof (cases "first_instance_named instance_name instances")
              case None
              with assms named Inr Some client inv listed have "w' = w2" "is_error j"
                by (auto simp: get_compute_instance_by_name_def is_error_error_json)
              with evs ev show ?thesis
                by (intro exI [where x = "evs @ [ev]"]) simp
            next
              case hit: (Some inst)
              with assms named Inr Some client inv listed
              have got: "get_compute_instance env (i_id inst) region w2 = (j, w')"
                by (auto simp: get_compute_instance_by_name_def)
              from get_compute_instance_errors [OF got]
              obtain evs2 where evs2: "trace w' = trace w2 @ evs2"
                "(\<exists>x \<in> set evs2. raised x) \<longrightarrow> is_error j"
                by blast
              from evs ev evs2 listed \<open>res = Inr found\<close> show ?thesis
                by (intro exI [where x = "evs @ [ev] @ evs2"]) auto
            qed
          qed
        next
          fix instances s2
          assume "compute_list_instances env client (c_id cpt) (bstate w1) = (Inr instances, s2)"
            and "first_instance_named instance_name instances = None"
          with assms named Inr Some client show "is_error j"
            by (auto simp: get_compute_instance_by_name_def invoke_def is_error_error_json)
        qed
        from events miss named Inr Some client show ?thesis
          by auto
      qed
    qed
  qed
qed

lemma perform_action_events:
  assumes "perform_action env client instance_id action current_state result w = (res, w')"
  shows "\<exists>evs. trace w' = trace w @ evs \<and> ((\<exists>x \<in> set evs. raised x) \<longrightarrow> isl res)"
  using assms
  by (auto simp: perform_action_def invoke_def split: if_splits prod.splits sum.splits)

lemma compute_instance_action_errors:
  assumes "compute_instance_action env instance_id action region w = (j, w')"
  shows "(\<exists>evs. trace w' = trace w @ evs \<and> ((\<exists>x \<in> set evs. raised x) \<longrightarrow> is_error j))
       \<and> (resolve_region instance_id region = None \<longrightarrow> is_error j)
       \<and> (str_upper action \<notin> set valid_actions \<longrightarrow> is_error j)
       \<and> ((\<exists>r e. resolve_region instance_id region = Some r \<and> client_error env r = Some e)
            \<longrightarrow> is_error j)"
proof (cases "resolve_region instance_id region")
  case None
  with assms show ?thesis
    by (auto simp: compute_instance_action_def is_error_error_json)
next
  case (Some r)
  show ?thesis
  proof (cases "client_error env r")
    case failed: (Some e)
    with assms Some show ?thesis
      by (auto simp: compute_instance_action_def compute_instance_action_try_def
          is_error_error_json)
  next
    case None
    show ?thesis
    proof (cases "str_upper action \<in> set valid_actions")
      case False
      with assms Some None show ?thesis
        by (auto simp: compute_instance_action_def compute_instance_action_try_def
            is_error_error_json Let_def)
    next
      case True
      obtain res1 w1 where inv: "invoke (GetInstance (Some r) instance_id)
          (compute_get_instance env (Some r) instance_id) w = (res1, w1)"
        by (cases "invoke (GetInstance (Some r) instance_id)
          (compute_get_instance env (Some r) instance_id) w")
      from invoke_events [OF inv] obtain ev where ev: "trace w1 = trace w @ [ev]"
        "raised ev \<longleftrightarrow> isl res1"
        by blast
      have "\<exists>evs. trace w' = trace w @ evs \<and> ((\<exists>x \<in> set evs. raised x) \<longrightarrow> is_error j)"
      proof (cases res1)
        case (Inl e)
        with assms Some None True inv have "w' = w1" "is_error j"
          by (auto simp: compute_instance_action_def compute_instance_action_try_def
              is_error_error_json Let_def)
        with ev show ?thesis
          by (intro exI [where x = "[ev]"]) simp
      next
        case (Inr inst)
        let ?base = "[(''instance_id'', JString instance_id),
                      (''instance_name'', JString (display_name inst)),
                      (''action_requested'', JString (str_upper action)),
                      (''previous_state'', JString (lifecycle_state inst))]"
        obtain res2 w2 where performed:
          "perform_action env (Some r) instance_id (str_upper action) (lifecycle_state inst)
             ?base w1 = (res2, w2)"
          by (cases "perform_action env (Some r) instance_id (str_upper action)
                       (lifecycle_state inst) ?base w1")
        from assms Some None True inv Inr performed have final: "w' = w2" "isl res2 \<longrightarrow> is_error j"
          by (auto simp: compute_instance_action_def compute_instance_action_try_def
              is_error_error_json Let_def split: sum.splits)
        from perform_action_events [OF performed]
        obtain evs2 where evs2: "trace w2 = trace w1 @ evs2"
          "(\<exists>x \<in> set evs2. raised x) \<longrightarrow> isl res2"
          by blast
        from ev evs2 final Inr show ?thesis
          by (intro exI [where x = "ev # evs2"]) auto
      qed
      with Some None True show ?thesis
        by simp
    qed
  qed
qed

text \<open>
  \<^verbatim>\<open>get_compute_instance\<close> and \<^verbatim>\<open>compute_instance_action\<close> always return. The three tools
  that list the compartments return exactly when the loop over the pages ends.
\<close>

lemma tools_return:
  "list_compartments env w = None \<longleftrightarrow> get_all_compartments_loop env None [] w = None"
  "list_compute_instances env compartment_name region w = None
     \<longleftrightarrow> get_all_compartments_loop env None [] w = None"
  "get_compute_instance_by_name env instance_name compartment_name region w = None
     \<longleftrightarrow> get_all_compartments_loop env None [] w = None"
  by (auto simp: list_compartments_def list_compute_instances_def get_compute_instance_by_name_def
      get_compartment_by_name_def get_all_compartments_def
      split: option.splits prod.splits sum.splits)

subsection \<open>Every error is an error object\<close>

text \<open>
  C5. Each tool returns a JSON value on every path on which it returns, and that value is
  the error object \<^verbatim>\<open>{"error": ...}\<close> whenever an error occurred during the invocation: a
  backend call raised, a client could not be built for the region, the compartment or the
  instance was not found, the identifier has no region segment, or the action is not valid.
\<close>

theorem errors_are_error_objects:
  "(list_compartments env w = Some (j1, w1)
      \<longrightarrow> (\<exists>evs. trace w1 = trace w @ evs \<and> ((\<exists>x \<in> set evs. raised x) \<longrightarrow> is_error j1)))
   \<and> (list_compute_instances env compartment_name region w = Some (j2, w2)
      \<longrightarrow> (\<exists>evs. trace w2 = trace w @ evs \<and> ((\<exists>x \<in> set evs. raised x) \<longrightarrow> is_error j2))
        \<and> ((\<exists>wc. get_compartment_by_name env compartment_name w = Some (Inr None, wc))
             \<longrightarrow> is_error j2)
        \<and> ((\<exists>e. select_client env region = Inl e) \<longrightarrow> is_error j2))
   \<and> (get_compute_instance env instance_id region w = (j3, w3)
      \<longrightarrow> (\<exists>evs. trace w3 = trace w @ evs \<and> ((\<exists>x \<in> set evs. raised x) \<longrightarrow> is_error j3))
        \<and> ((\<exists>e. select_client env region = Inl e) \<longrightarrow> is_error j3))
   \<and> (get_compute_instance_by_name env instance_name compartment_name region w = Some (j4, w4)
      \<longrightarrow> (\<exists>evs. trace w4 = trace w @ evs \<and> ((\<exists>x \<in> set evs. raised x) \<longrightarrow> is_error j4))
        \<and> ((\<exists>wc. get_compartment_by_name env compartment_name w = Some (Inr None, wc))
             \<longrightarrow> is_error j4)
        \<and> ((\<exists>e. select_client env region = Inl e) \<longrightarrow> is_error j4)
        \<and> ((\<exists>wc cpt client instances s2.
               get_compartment_by_name env compartment_name w = Some (Inr (Some cpt), wc)
               \<and> select_client env region = Inr client
               \<and> compute_list_instances env client (c_id cpt) (bstate wc) = (Inr instances, s2)
               \<and> first_instance_named instance_name instances = None)
             \<longrightarrow> is_error j4))
   \<and> (compute_instance_action env instance_id action region w = (j5, w5)
      \<longrightarrow> (\<exists>evs. trace w5 = trace w @ evs \<and> ((\<exists>x \<in> set evs. raised x) \<longrightarrow> is_error j5))
        \<and> (resolve_region instance_id region = None \<longrightarrow> is_error j5)
        \<and> (str_upper action \<notin> set valid_actions \<longrightarrow> is_error j5)
        \<and> ((\<exists>r e. resolve_region instance_id region = Some r \<and> client_error env r = Some e)
             \<longrightarrow> is_error j5))"
  by (intro conjI; rule impI)
     (erule list_compartments_errors list_compute_instances_errors get_compute_instance_errors
        get_compute_instance_by_name_errors compute_instance_action_errors)+

text \<open>
  One error of each kind: every backend call raises; the compartment is not found; no client
  for the region; the instance is not found; a lifecycle action is refused; the identifier
  has no region segment.
\<close>

theorem errors_are_error_objects_witness:
  "is_error (fst (the (list_compartments offline_env (demo_world ''RUNNING''))))
   \<and> is_error (fst (the (list_compute_instances demo_env ''nope'' None (demo_world ''RUNNING''))))
   \<and> is_error (fst (get_compute_instance offline_env demo_id (Some ''nowhere'') (demo_world ''RUNNING'')))
   \<and> is_error (fst (the (get_compute_instance_by_name demo_env ''ghost'' ''dev'' None
                           (demo_world ''RUNNING''))))
   \<and> is_error (fst (compute_instance_action refusing_env demo_id ''stop'' None (demo_world ''RUNNING'')))
   \<and> is_error (fst (compute_instance_action demo_env ''abc'' ''stop'' None (demo_world ''RUNNING'')))"
proof -
  let ?w0 = "demo_world ''RUNNING''"
  let ?listed = "\<lparr>bstate = ''RUNNING'',
            trace = [Returned (ListCompartments ''ocid1.tenancy.oc1..root'' None),
                     Returned (ListCompartments ''ocid1.tenancy.oc1..root'' (Some ''p2'')),
                     Returned (GetCompartment ''ocid1.tenancy.oc1..root'')]\<rparr>"
  let ?dev = "demo_compartment ''ocid1.compartment.oc1..dev'' ''Dev''"
  have lowered: "str_lower ''Dev'' = ''dev''" "str_lower ''Prod'' = ''prod''"
    "str_lower ''Root'' = ''root''" "str_lower ''dev'' = ''dev''" "str_lower ''nope'' = ''nope''"
    "str_lower ''ghost'' = ''ghost''" "str_lower ''Web-01'' = ''web-01''"
    by code_simp+
  note boundary = errors_are_error_objects
  note tool1 = boundary [THEN conjunct1, THEN mp]
    and tool2 = boundary [THEN conjunct2, THEN conjunct1, THEN mp]
    and tool3 = boundary [THEN conjunct2, THEN conjunct2, THEN conjunct1, THEN mp]
    and tool4 = boundary [THEN conjunct2, THEN conjunct2, THEN conjunct2, THEN conjunct1, THEN mp]
    and tool5 = boundary [THEN conjunct2, THEN conjunct2, THEN conjunct2, THEN conjunct2, THEN mp]

  let ?j1 = "error_json ''Failed to list compartments: Timeout''"
  let ?w1 = "\<lparr>bstate = ''RUNNING'',
              trace = [Raised (ListCompartments ''ocid1.tenancy.oc1..root'' None) ''Timeout'']\<rparr>"
  have run1: "list_compartments offline_env ?w0 = Some (?j1, ?w1)"
    by (simp add: list_compartments_def get_all_compartments_def get_all_compartments_loop.simps
        offline_env_def demo_world_def invoke_def)
  from tool1 [OF run1]
  have "\<exists>evs. trace ?w1 = trace ?w0 @ evs \<and> ((\<exists>x \<in> set evs. raised x) \<longrightarrow> is_error ?j1)"
    by blast
  then have first: "is_error ?j1"
    by (auto simp: demo_world_def)

  let ?j2 = "error_json (compartment_not_found ''nope'')"
  have miss2: "get_compartment_by_name demo_env ''nope'' ?w0 = Some (Inr None, ?listed)"
    by (simp add: demo_compartment_by_name) (simp add: demo_compartment_def lowered)
  have run2: "list_compute_instances demo_env ''nope'' None ?w0 = Some (?j2, ?listed)"
    by (simp add: list_compute_instances_def miss2)
  from tool2 [OF run2] miss2
  have second: "is_error ?j2"
    by blast

  let ?j3 = "error_json ''Failed to get compute instance: Unknown region''"
  have client3: "select_client offline_env (Some ''nowhere'') = Inl ''Unknown region''"
    by (simp add: select_client_def offline_env_def)
  have run3: "get_compute_instance offline_env demo_id (Some ''nowhere'') ?w0 = (?j3, ?w0)"
    by (simp add: get_compute_instance_def client3)
  from tool3 [OF run3] client3
  have third: "is_error ?j3"
    by blast

  let ?j4 = "error_json (instance_not_found ''ghost'' ''dev'')"
  let ?w4 = "\<lparr>bstate = ''RUNNING'',
              trace = trace ?listed @ [Returned (ListInstances None ''ocid1.compartment.oc1..dev'')]\<rparr>"
  have found4: "get_compartment_by_name demo_env ''dev'' ?w0 = Some (Inr (Some ?dev), ?listed)"
    by (simp add: demo_compartment_by_name) (simp add: demo_compartment_def lowered)
  have client4: "select_client demo_env None = Inr None"
    by (simp add: select_client_def)
  have listed4: "compute_list_instances demo_env None (c_id ?dev) (bstate ?listed) =
      (Inr [demo_instance ''RUNNING''], ''RUNNING'')"
    by (simp add: demo_env_def)
  have miss4: "first_instance_named ''ghost'' [demo_instance ''RUNNING''] = None"
    by (simp add: demo_state lowered)
  have run4: "get_compute_instance_by_name demo_env ''ghost'' ''dev'' None ?w0 = Some (?j4, ?w4)"
    using listed4
    by (simp add: get_compute_instance_by_name_def found4 client4 invoke_def demo_state lowered
        demo_compartment_def)
  from tool4 [OF run4] found4 client4 listed4 miss4
  have fourth: "is_error ?j4"
    by blast

  let ?j5 = "error_json ''Failed to perform instance action: Conflict''"
  let ?w5 = "\<lparr>bstate = ''RUNNING'',
              trace = [Returned (GetInstance (Some ''iad'') demo_id),
                       Raised (InstanceAction (Some ''iad'') demo_id ''STOP'') ''Conflict'']\<rparr>"
  have run5: "compute_instance_action refusing_env demo_id ''stop'' None ?w0 = (?j5, ?w5)"
    by code_simp
  from tool5 [OF run5]
  have "\<exists>evs. trace ?w5 = trace ?w0 @ evs \<and> ((\<exists>x \<in> set evs. raised x) \<longrightarrow> is_error ?j5)"
    by blast
  then have fifth: "is_error ?j5"
    by (auto simp: demo_world_def)

  let ?j6 = "error_json ''Invalid instance_id format. Cannot extract region.''"
  have region6: "resolve_region ''abc'' None = None"
    by (simp add: resolve_region_def)
  have run6: "compute_instance_action demo_env ''abc'' ''stop'' None ?w0 = (?j6, ?w0)"
    by (simp add: compute_instance_action_def region6)
  from tool5 [OF run6] region6
  have sixth: "is_error ?j6"
    by blast

  from first second third fourth fifth sixth show ?thesis
    by (simp add: run1 run2 run3 run4 run5 run6)
qed

end
